theory Spec2Isabelle
  imports Main
begin

section \<open>Data model of the library\<close>

text \<open>
  The program keeps books, members and transactions as lists of dictionaries inside one
  \<open>LibraryData\<close> object; the stock manager keeps a list of stock-history dictionaries.
  Every dictionary that the program creates has a fixed set of keys, so each kind of
  dictionary is a record with one field per key.

  A \<open>datetime\<close> is the number of microseconds since the epoch, so that \<open>timedelta.days\<close>
  is the floor division by a day. A date text in the format \<open>%Y-%m-%d\<close> is represented by
  the ordinal of its day (\<open>Ymd\<close>); any other text, which \<open>strptime\<close> rejects, is
  \<open>Unparsed\<close> (the empty return date of an open transaction is \<open>Unparsed []\<close>).
\<close>

type_synonym datetime = int

datatype date_str = Ymd int | Unparsed string

definition day_us :: int where
  "day_us = 86400000000"

definition strftime_ymd :: "datetime \<Rightarrow> date_str" where
  "strftime_ymd t = Ymd (t div day_us)"

definition strftime_ymd_hms :: "datetime \<Rightarrow> int" where
  "strftime_ymd_hms t = t div 1000000"

definition timedelta_days :: "int \<Rightarrow> int" where
  "timedelta_days n = n * day_us"

record book =
  id_book :: int
  s_no_code :: string
  title :: string
  author :: string
  isbn :: string
  category :: string
  publisher :: string
  publication_year :: string
  page_count :: int
  price :: int
  total_copies :: int
  available_copies :: int
  shelf_location :: string
  description :: string
  added_date :: date_str

record member =
  id_member :: string
  name :: string
  phone :: string
  membership_type :: string
  max_books :: int
  active :: bool
  total_borrowed :: int
  current_borrowed :: int

record transaction_rec =
  id_transaction :: int
  book_id :: int
  member_id :: string
  issue_date :: date_str
  due_date :: date_str
  return_date :: date_str
  status :: string
  fine_amount :: int
  fine_paid :: bool
  renewals :: int

record history_record =
  history_id :: int
  hist_book_id :: int
  book_title :: string
  book_author :: string
  book_isbn :: string
  action :: string
  quantity_added :: int
  old_stock :: int
  new_stock :: int
  old_total :: int
  new_total :: int
  source :: string
  notes_text :: string
  timestamp :: int
  performed_by :: string

text \<open>A row of the SQLite table \<open>admin_saves\<close>, with the columns that the return handler
  reads or writes.\<close>

record admin_save =
  student_name :: string
  save_book_title :: string
  save_status :: string
  save_return_date :: date_str

text \<open>
  The state of the program. \<open>by_id\<close> is the dictionary \<open>book_lookup.by_id\<close>, from book ids
  to books, as the last run of \<open>build_index\<close> left it.
\<close>

record library =
  books :: "book list"
  members :: "member list"
  transactions :: "transaction_rec list"
  stock_history :: "history_record list"
  admin_saves :: "admin_save list"
  by_id :: "int \<rightharpoonup> nat"

subsection \<open>Scanning a list for a dictionary\<close>

text \<open>\<open>for i, x in enumerate(xs): if P(x): ...; return\<close> acts on the first position whose
  element satisfies the test.\<close>

fun first_index :: "('a \<Rightarrow> bool) \<Rightarrow> 'a list \<Rightarrow> nat option" where
  "first_index P [] = None"
| "first_index P (x # xs) =
     (if P x then Some 0 else map_option Suc (first_index P xs))"

text \<open>\<open>del xs[i]\<close>.\<close>

definition del_at :: "nat \<Rightarrow> 'a list \<Rightarrow> 'a list" where
  "del_at i xs = take i xs @ drop (Suc i) xs"

subsection \<open>FastBookLookup\<close>

text \<open>
  \<open>build_index\<close> walks the book list and stores every book whose id is truthy under its
  id, a later book replacing an earlier one with the same id. The dictionary holds the
  book objects themselves; here it holds their positions in the list. \<open>build_index\<close> is
  run when the data is loaded and by \<open>add_book\<close>, \<open>update_book\<close>, \<open>delete_book\<close> and
  \<open>delete_selected_books\<close>, which store its result in the state; \<open>issue_book\<close> and
  \<open>delete_selected_books\<close> read the stored dictionary.
\<close>

definition build_index :: "book list \<Rightarrow> (int \<rightharpoonup> nat)" where
  "build_index bs =
     fold (\<lambda>(i, b) m. if id_book b \<noteq> 0 then m(id_book b \<mapsto> i) else m)
          (enumerate 0 bs) Map.empty"

text \<open>The lookup in the dictionary that \<open>build_index\<close> gives for a book list.\<close>

definition get_by_id :: "book list \<Rightarrow> int \<Rightarrow> nat option" where
  "get_by_id bs b_id = build_index bs b_id"

section \<open>MemberManager\<close>

definition update_borrow_count :: "string \<Rightarrow> int \<Rightarrow> library \<Rightarrow> bool \<times> library" where
  "update_borrow_count m_id delta st =
     (case first_index (\<lambda>m. id_member m = m_id) (members st) of
        None \<Rightarrow> (False, st)
      | Some k \<Rightarrow>
          let m = members st ! k;
              m1 = m\<lparr>current_borrowed := current_borrowed m + delta\<rparr>;
              m2 = m1\<lparr>total_borrowed := total_borrowed m1 + \<bar>delta\<bar>\<rparr>;
              m3 = (if current_borrowed m2 < 0 then m2\<lparr>current_borrowed := 0\<rparr> else m2)
          in (True, st\<lparr>members := (members st)[k := m3]\<rparr>))"

section \<open>TransactionManager\<close>

definition loan_period :: int where
  "loan_period = 14"

definition daily_fine :: int where
  "daily_fine = 10"

datatype issue_message = Book_not_available | Book_issued_successfully date_str

definition issue_book ::
  "datetime \<Rightarrow> int \<Rightarrow> string \<Rightarrow> library \<Rightarrow> (bool \<times> issue_message) \<times> library" where
  "issue_book now b_id m_id st =
     (case by_id st b_id of
        None \<Rightarrow> ((False, Book_not_available), st)
      | Some i \<Rightarrow>
          let bk = books st ! i in
          if available_copies bk \<le> 0 then ((False, Book_not_available), st)
          else
            let transaction_id = int (length (transactions st)) + 1;
                issue_dt = now;
                due_dt = issue_dt + timedelta_days loan_period;
                transaction = \<lparr> id_transaction = transaction_id, book_id = b_id,
                    member_id = m_id, issue_date = strftime_ymd issue_dt,
                    due_date = strftime_ymd due_dt, return_date = Unparsed [],
                    status = ''issued'', fine_amount = 0, fine_paid = False,
                    renewals = 0 \<rparr>;
                st1 = st\<lparr>books := (books st)
                        [i := bk\<lparr>available_copies := available_copies bk - 1\<rparr>]\<rparr>;
                st2 = snd (update_borrow_count m_id 1 st1);
                st3 = st2\<lparr>transactions := transactions st2 @ [transaction]\<rparr>
            in ((True, Book_issued_successfully (strftime_ymd due_dt)), st3))"

text \<open>\<open>calculate_fine\<close> reads the clock once; \<open>today\<close> is that reading. A due date that
  \<open>strptime\<close> rejects raises inside the \<open>try\<close>, and the handler returns 0.\<close>

definition calculate_fine :: "datetime \<Rightarrow> date_str \<Rightarrow> int" where
  "calculate_fine today due_date_str =
     (case due_date_str of
        Unparsed _ \<Rightarrow> 0
      | Ymd d \<Rightarrow>
          let due_dt = d * day_us in
          if today > due_dt then
            let days_overdue = (today - due_dt) div day_us in days_overdue * daily_fine
          else 0)"

section \<open>StockManagementSystem\<close>

text \<open>The body shared by the single and the bulk restock: both counts of the book grow by
  the quantity and one history record is appended, numbered by the length of the history.\<close>

definition restock_at ::
  "datetime \<Rightarrow> nat \<Rightarrow> int \<Rightarrow> string \<Rightarrow> string \<Rightarrow> string \<Rightarrow> library \<Rightarrow> library" where
  "restock_at now i quantity act src nts st =
     (let bk = books st ! i;
          o_stock = available_copies bk;
          o_total = total_copies bk;
          bk1 = bk\<lparr>available_copies := available_copies bk + quantity\<rparr>;
          bk2 = bk1\<lparr>total_copies := total_copies bk1 + quantity\<rparr>;
          record_new = \<lparr> history_id = int (length (stock_history st)) + 1,
              hist_book_id = id_book bk2, book_title = title bk2, book_author = author bk2,
              book_isbn = isbn bk2, action = act, quantity_added = quantity,
              old_stock = o_stock, new_stock = available_copies bk2,
              old_total = o_total, new_total = total_copies bk2,
              source = src, notes_text = nts, timestamp = strftime_ymd_hms now,
              performed_by = ''admin'' \<rparr>
      in st\<lparr>books := (books st)[i := bk2],
             stock_history := stock_history st @ [record_new]\<rparr>)"

definition restock_book ::
  "datetime \<Rightarrow> int \<Rightarrow> int \<Rightarrow> string \<Rightarrow> string \<Rightarrow> library \<Rightarrow> (bool \<times> book option) \<times> library" where
  "restock_book now b_id quantity src nts st =
     (case first_index (\<lambda>b. id_book b = b_id) (books st) of
        None \<Rightarrow> ((False, None), st)
      | Some i \<Rightarrow>
          let st' = restock_at now i quantity ''restock'' src nts st
          in ((True, Some (books st' ! i)), st'))"

text \<open>
  The bulk restock reads a spreadsheet. \<open>Unreadable\<close> is a file that \<open>read_excel\<close>
  rejects; a sheet has its column names and its rows. A row gives the text
  \<open>str(row['ISBN']).strip()\<close> and the result of \<open>int(row['Quantity'])\<close>, which is \<open>None\<close> when
  the conversion raises. The clock is read once for each row that finds a book; \<open>clock k\<close>
  is the reading at row \<open>k\<close>.
\<close>

datatype excel_file = Unreadable | Sheet "string list" "(string \<times> int option) list"

datatype bulk_message =
  Excel_Error string | Bulk_Restock_Summary "string list" "string list" | Excel_Import_Error

definition restock_row ::
  "datetime \<Rightarrow> string \<Rightarrow> int \<Rightarrow> string list \<times> string list \<times> library
     \<Rightarrow> string list \<times> string list \<times> library" where
  "restock_row now isbn_text quantity acc =
     (case acc of (restocked_books, skipped_books, st) \<Rightarrow>
        (case first_index (\<lambda>b. isbn b = isbn_text) (books st) of
           None \<Rightarrow> (restocked_books, skipped_books @ [isbn_text], st)
         | Some i \<Rightarrow>
             (restocked_books @ [title (books st ! i)], skipped_books,
              restock_at now i quantity ''bulk_restock'' ''Excel Import''
                ''Bulk restock from Excel file'' st)))"

fun restock_rows ::
  "(nat \<Rightarrow> datetime) \<Rightarrow> nat \<Rightarrow> (string \<times> int option) list
     \<Rightarrow> string list \<times> string list \<times> library
     \<Rightarrow> bool \<times> string list \<times> string list \<times> library" where
  "restock_rows clock k [] acc = (True, acc)"
| "restock_rows clock k ((isbn_text, q) # rows) acc =
     (case q of
        None \<Rightarrow> (False, acc)
      | Some quantity \<Rightarrow>
          restock_rows clock (Suc k) rows (restock_row (clock k) isbn_text quantity acc))"

definition bulk_restock_from_excel ::
  "(nat \<Rightarrow> datetime) \<Rightarrow> excel_file \<Rightarrow> library \<Rightarrow> (bool \<times> bulk_message) \<times> library" where
  "bulk_restock_from_excel clock file st =
     (case file of
        Unreadable \<Rightarrow> ((False, Excel_Import_Error), st)
      | Sheet columns rows \<Rightarrow>
          if ''ISBN'' \<notin> set columns then ((False, Excel_Error ''ISBN''), st)
          else if ''Quantity'' \<notin> set columns then ((False, Excel_Error ''Quantity''), st)
          else
            (case restock_rows clock 0 rows ([], [], st) of
               (True, restocked_books, skipped_books, st') \<Rightarrow>
                 ((True, Bulk_Restock_Summary restocked_books skipped_books), st')
             | (False, _, _, st') \<Rightarrow> ((False, Excel_Import_Error), st')))"

section \<open>BookManager\<close>

text \<open>The decimal text of a number, as an f-string prints it.\<close>

fun str_nat :: "nat \<Rightarrow> string" where
  "str_nat n =
     (if n < 10 then [char_of (48 + n)]
      else str_nat (n div 10) @ [char_of (48 + n mod 10)])"

declare str_nat.simps [simp del]

definition str_int :: "int \<Rightarrow> string" where
  "str_int i = (if i < 0 then CHR ''-'' # str_nat (nat (- i)) else str_nat (nat i))"

text \<open>The dictionary given to \<open>add_book\<close>: the keys read with \<open>book_data[...]\<close> are
  present, the keys read with \<open>book_data.get\<close> may be absent.\<close>

record book_data =
  bd_s_no_code :: "string option"
  bd_title :: string
  bd_author :: string
  bd_isbn :: string
  bd_category :: string
  bd_publisher :: string
  bd_publication_year :: string
  bd_page_count :: int
  bd_price :: int
  bd_total_copies :: int
  bd_shelf_location :: "string option"
  bd_description :: "string option"

definition dict_get :: "'a option \<Rightarrow> 'a \<Rightarrow> 'a" where
  "dict_get v dflt = (case v of None \<Rightarrow> dflt | Some x \<Rightarrow> x)"

definition add_book :: "datetime \<Rightarrow> book_data \<Rightarrow> library \<Rightarrow> int \<times> library" where
  "add_book now bd st =
     (let b_id = int (length (books st)) + 1;
          bk = \<lparr> id_book = b_id,
                 s_no_code = dict_get (bd_s_no_code bd) (CHR ''T'' # str_int b_id),
                 title = bd_title bd, author = bd_author bd, isbn = bd_isbn bd,
                 category = bd_category bd, publisher = bd_publisher bd,
                 publication_year = bd_publication_year bd,
                 page_count = bd_page_count bd, price = bd_price bd,
                 total_copies = bd_total_copies bd,
                 available_copies = bd_total_copies bd,
                 shelf_location = dict_get (bd_shelf_location bd) [],
                 description = dict_get (bd_description bd) [],
                 added_date = strftime_ymd now \<rparr>
      in (b_id, st\<lparr>books := books st @ [bk], by_id := build_index (books st @ [bk])\<rparr>))"

text \<open>
  The dictionary given to \<open>update_book\<close>: one optional value for each key of a book. A key
  that a book does not have is skipped by the loop and is not represented. The keys are
  distinct fields, so the order of the assignments does not matter.
\<close>

record book_update =
  upd_id :: "int option"
  upd_s_no_code :: "string option"
  upd_title :: "string option"
  upd_author :: "string option"
  upd_isbn :: "string option"
  upd_category :: "string option"
  upd_publisher :: "string option"
  upd_publication_year :: "string option"
  upd_page_count :: "int option"
  upd_price :: "int option"
  upd_total_copies :: "int option"
  upd_available_copies :: "int option"
  upd_shelf_location :: "string option"
  upd_description :: "string option"
  upd_added_date :: "date_str option"

definition overwrite_fields :: "book_update \<Rightarrow> book \<Rightarrow> book" where
  "overwrite_fields u bk =
     \<lparr> id_book = dict_get (upd_id u) (id_book bk),
       s_no_code = dict_get (upd_s_no_code u) (s_no_code bk),
       title = dict_get (upd_title u) (title bk),
       author = dict_get (upd_author u) (author bk),
       isbn = dict_get (upd_isbn u) (isbn bk),
       category = dict_get (upd_category u) (category bk),
       publisher = dict_get (upd_publisher u) (publisher bk),
       publication_year = dict_get (upd_publication_year u) (publication_year bk),
       page_count = dict_get (upd_page_count u) (page_count bk),
       price = dict_get (upd_price u) (price bk),
       total_copies = dict_get (upd_total_copies u) (total_copies bk),
       available_copies = dict_get (upd_available_copies u) (available_copies bk),
       shelf_location = dict_get (upd_shelf_location u) (shelf_location bk),
       description = dict_get (upd_description u) (description bk),
       added_date = dict_get (upd_added_date u) (added_date bk) \<rparr>"

text \<open>
  \<open>update_book\<close> first overwrites the fields, \<open>total_copies\<close> among them, and only then
  reads \<open>self.data.books[i]["total_copies"]\<close> as the old total: \<open>book\<close> is that same
  dictionary, so the value read is the one just written.
\<close>

definition update_book :: "int \<Rightarrow> book_update \<Rightarrow> library \<Rightarrow> bool \<times> library" where
  "update_book b_id updated_data st =
     (case first_index (\<lambda>b. id_book b = b_id) (books st) of
        None \<Rightarrow> (False, st)
      | Some i \<Rightarrow>
          let bk = overwrite_fields updated_data (books st ! i);
              bk' =
                (case upd_total_copies updated_data of
                   None \<Rightarrow> bk
                 | Some n_total \<Rightarrow>
                     let o_total = total_copies bk in
                     if n_total > o_total then
                       bk\<lparr>available_copies := available_copies bk + (n_total - o_total)\<rparr>
                     else if n_total < o_total then
                       bk\<lparr>available_copies := max 0 (available_copies bk - (o_total - n_total)),
                          total_copies := n_total\<rparr>
                     else bk)
          in (True, st\<lparr>books := (books st)[i := bk'],
                    by_id := build_index ((books st)[i := bk'])\<rparr>))"

text \<open>The deletions return a truth value and may show message boxes; the result carries
  the titles of the boxes shown.\<close>

definition delete_book :: "int \<Rightarrow> library \<Rightarrow> (bool \<times> string list) \<times> library" where
  "delete_book b_id st =
     (case first_index (\<lambda>b. id_book b = b_id) (books st) of
        None \<Rightarrow> ((False, []), st)
      | Some i \<Rightarrow>
          if available_copies (books st ! i) < total_copies (books st ! i)
          then ((False, [''Cannot Delete'']), st)
          else ((True, []), st\<lparr>books := del_at i (books st),
                                by_id := build_index (del_at i (books st))\<rparr>))"

definition check_selected :: "library \<Rightarrow> int list \<Rightarrow> book list \<times> book list" where
  "check_selected st book_ids =
     foldl (\<lambda>(books_to_delete, books_with_issues) b_id.
              case by_id st b_id of
                None \<Rightarrow> (books_to_delete, books_with_issues)
              | Some i \<Rightarrow>
                  if available_copies (books st ! i) < total_copies (books st ! i)
                  then (books_to_delete, books_with_issues @ [books st ! i])
                  else (books_to_delete @ [books st ! i], books_with_issues))
           ([], []) book_ids"

definition delete_first_with_id :: "int \<Rightarrow> book list \<Rightarrow> book list" where
  "delete_first_with_id k bs =
     (case first_index (\<lambda>b. id_book b = k) bs of
        None \<Rightarrow> bs
      | Some i \<Rightarrow> del_at i bs)"

definition delete_selected_books ::
  "int list \<Rightarrow> library \<Rightarrow> (bool \<times> string list) \<times> library" where
  "delete_selected_books book_ids st =
     (case check_selected st book_ids of
        (books_to_delete, books_with_issues) \<Rightarrow>
          let shown = (if books_with_issues \<noteq> [] then [''Cannot Delete''] else []) in
          if books_with_issues \<noteq> [] \<and> books_to_delete = [] then ((False, shown), st)
          else
            let bs' = foldl (\<lambda>bs bk. delete_first_with_id (id_book bk) bs)
                        (books st) books_to_delete;
                st' = st\<lparr>books := bs', by_id := build_index bs'\<rparr>
            in if books_to_delete \<noteq> [] then
                 ((True, shown @ [if books_with_issues \<noteq> [] then ''Partial Success''
                                  else ''Success'']), st')
               else ((False, shown), st'))"

section \<open>Marking a loan as returned\<close>

text \<open>
  The handler \<open>mark_as_returned\<close> of the active-borrowers screen is the only code that
  returns a loan. It reads the student's name and the book's title from the selected row,
  asks for confirmation, shows the loading spinner and then, inside its \<open>try\<close>, sets every
  matching row of \<open>admin_saves\<close> that is still issued to returned and adds one to the
  available copies of the first book that has the title.
\<close>

datatype py_error = NameError | IndexError

text \<open>
  \<open>LoadingSpinner.show\<close> builds its window, sets \<open>running\<close> and calls \<open>animate_spinner\<close>,
  whose loop calls \<open>time.sleep\<close> in its first pass. The module never imports \<open>time\<close>, so
  the call raises \<open>NameError\<close>, whatever the message.
\<close>

definition loading_spinner_show :: "string \<Rightarrow> py_error + unit" where
  "loading_spinner_show message = Inl NameError"

definition mark_returned_rows :: "datetime \<Rightarrow> string \<Rightarrow> string \<Rightarrow> admin_save list \<Rightarrow> admin_save list" where
  "mark_returned_rows now s_name b_title rows =
     map (\<lambda>r. if student_name r = s_name \<and> save_book_title r = b_title
                  \<and> save_status r = ''issued''
               then r\<lparr>save_status := ''returned'', save_return_date := strftime_ymd now\<rparr>
               else r) rows"

definition returned_update :: "datetime \<Rightarrow> string \<Rightarrow> string \<Rightarrow> library \<Rightarrow> library" where
  "returned_update now s_name b_title st =
     (let st1 = st\<lparr>admin_saves := mark_returned_rows now s_name b_title (admin_saves st)\<rparr>
      in case first_index (\<lambda>b. title b = b_title) (books st1) of
           None \<Rightarrow> st1
         | Some i \<Rightarrow>
             st1\<lparr>books := (books st1)
                   [i := (books st1 ! i)\<lparr>available_copies :=
                            available_copies (books st1 ! i) + 1\<rparr>]\<rparr>)"

datatype return_outcome =
  Warning_no_selection | Raised py_error | Not_confirmed | Success_returned

text \<open>The selection is the list of values of the selected row, if a row is selected; the
  name is its value 0 and the title its value 4. The spinner is shown before the \<open>try\<close>,
  so what it raises leaves the handler.\<close>

definition mark_as_returned ::
  "datetime \<Rightarrow> string list option \<Rightarrow> bool \<Rightarrow> library \<Rightarrow> return_outcome \<times> library" where
  "mark_as_returned now selection confirmed st =
     (case selection of
        None \<Rightarrow> (Warning_no_selection, st)
      | Some vals \<Rightarrow>
          if length vals \<le> 4 then (Raised IndexError, st)
          else
            let s_name = vals ! 0; b_title = vals ! 4 in
            if \<not> confirmed then (Not_confirmed, st)
            else
              (case loading_spinner_show (''Marking '' @ b_title @ '' as returned...'') of
                 Inl e \<Rightarrow> (Raised e, st)
               | Inr _ \<Rightarrow> (Success_returned, returned_update now s_name b_title st)))"

section \<open>Predicates of the specification\<close>

text \<open>Invariant I1 for one book and for the catalog.\<close>

definition copies_ok :: "book \<Rightarrow> bool" where
  "copies_ok b \<longleftrightarrow> 0 \<le> available_copies b \<and> available_copies b \<le> total_copies b"

definition I1 :: "library \<Rightarrow> bool" where
  "I1 st \<longleftrightarrow> list_all copies_ok (books st)"

text \<open>The position that the index gives for an id: the last book of the list with it.\<close>

definition is_last_with_id :: "book list \<Rightarrow> int \<Rightarrow> nat \<Rightarrow> bool" where
  "is_last_with_id bs k i \<longleftrightarrow>
     i < length bs \<and> id_book (bs ! i) = k \<and>
     (\<forall>j. i < j \<and> j < length bs \<longrightarrow> id_book (bs ! j) \<noteq> k)"

text \<open>What the rows of a sheet add to the book at position \<open>i\<close>: the sum of the quantities
  of the rows whose ISBN is first found at that position.\<close>

definition quantity_for :: "book list \<Rightarrow> nat \<Rightarrow> (string \<times> int option) list \<Rightarrow> int" where
  "quantity_for bs i rows =
     sum_list (map (\<lambda>(c, q). case q of None \<Rightarrow> 0 | Some n \<Rightarrow> n)
       (filter (\<lambda>(c, q). first_index (\<lambda>b. isbn b = c) bs = Some i) rows))"

section \<open>Example data\<close>

text \<open>Small catalogs for the concrete cases: a book is given by its id, title, ISBN, total
  and available copies, a member by its id and its two counts; the state has the index
  built from its books, as after loading.\<close>

definition a_book :: "int \<Rightarrow> string \<Rightarrow> string \<Rightarrow> int \<Rightarrow> int \<Rightarrow> book" where
  "a_book k t c tot av =
     \<lparr> id_book = k, s_no_code = CHR ''T'' # str_int k, title = t, author = ''A'',
       isbn = c, category = ''General'', publisher = [], publication_year = ''2024'',
       page_count = 0, price = 0, total_copies = tot, available_copies = av,
       shelf_location = [], description = [], added_date = Ymd 0 \<rparr>"

definition a_member :: "string \<Rightarrow> int \<Rightarrow> int \<Rightarrow> member" where
  "a_member k cur tot =
     \<lparr> id_member = k, name = ''N'', phone = [], membership_type = ''Student'',
       max_books = 5, active = True, total_borrowed = tot, current_borrowed = cur \<rparr>"

definition a_library :: "book list \<Rightarrow> member list \<Rightarrow> library" where
  "a_library bs ms =
     \<lparr> books = bs, members = ms, transactions = [], stock_history = [], admin_saves = [],
       by_id = build_index bs \<rparr>"

text \<open>The empty update dictionary, and the dictionary for a new book with a title, an ISBN
  and a number of copies.\<close>

definition no_update :: book_update where
  "no_update =
     \<lparr> upd_id = None, upd_s_no_code = None, upd_title = None, upd_author = None,
       upd_isbn = None, upd_category = None, upd_publisher = None,
       upd_publication_year = None, upd_page_count = None, upd_price = None,
       upd_total_copies = None, upd_available_copies = None, upd_shelf_location = None,
       upd_description = None, upd_added_date = None \<rparr>"

definition a_book_data :: "string \<Rightarrow> string \<Rightarrow> int \<Rightarrow> book_data" where
  "a_book_data t c tot =
     \<lparr> bd_s_no_code = None, bd_title = t, bd_author = ''A'', bd_isbn = c,
       bd_category = ''General'', bd_publisher = [], bd_publication_year = ''2024'',
       bd_page_count = 0, bd_price = 0, bd_total_copies = tot,
       bd_shelf_location = None, bd_description = None \<rparr>"

text \<open>A row of \<open>admin_saves\<close> for a loan that is still issued.\<close>

definition an_issued_save :: "string \<Rightarrow> string \<Rightarrow> admin_save" where
  "an_issued_save s t =
     \<lparr> student_name = s, save_book_title = t, save_status = ''issued'',
       save_return_date = Unparsed [] \<rparr>"

text \<open>A clock that shows the same time at every row.\<close>

definition fixed_clock :: "datetime \<Rightarrow> nat \<Rightarrow> datetime" where
  "fixed_clock t k = t"

section \<open>Fines\<close>

lemma whole_days: "(t - d * day_us) div day_us = t div day_us - d"
  by (simp add: day_us_def)

lemma calculate_fine_overdue:
  "d * day_us < today \<Longrightarrow> calculate_fine today (Ymd d) = (today div day_us - d) * daily_fine"
  by (simp add: calculate_fine_def Let_def whole_days)

lemma calculate_fine_not_overdue: "today \<le> d * day_us \<Longrightarrow> calculate_fine today (Ymd d) = 0"
  by (simp add: calculate_fine_def)

text \<open>
  Claim C9. For a fixed due date the fine is 0 at every time up to the due date (its
  midnight), it does not decrease between two times that are both on or after the due
  date, and once the time is past the due date it is the number of whole days between the
  due day and the day of the reading, times the daily fine: the time of day does not count.
\<close>

theorem calculate_fine_monotone:
  "(today \<le> d * day_us \<longrightarrow> calculate_fine today (Ymd d) = 0) \<and>
   (d * day_us \<le> t1 \<and> t1 \<le> t2 \<longrightarrow>
      calculate_fine t1 (Ymd d) \<le> calculate_fine t2 (Ymd d)) \<and>
   (d * day_us < today \<longrightarrow>
      calculate_fine today (Ymd d) = (today div day_us - d) * daily_fine)"
proof (intro conjI impI)
  assume "today \<le> d * day_us"
  then show "calculate_fine today (Ymd d) = 0" by (rule calculate_fine_not_overdue)
next
  assume h: "d * day_us \<le> t1 \<and> t1 \<le> t2"
  have "(t1 - d * day_us) div day_us \<le> (t2 - d * day_us) div day_us"
    using h by (intro zdiv_mono1) (simp_all add: day_us_def)
  moreover have "0 \<le> (t2 - d * day_us) div day_us"
    using h by (simp add: day_us_def pos_imp_zdiv_nonneg_iff)
  ultimately show "calculate_fine t1 (Ymd d) \<le> calculate_fine t2 (Ymd d)"
    using h by (auto simp: calculate_fine_def Let_def daily_fine_def)
next
  assume "d * day_us < today"
  then show "calculate_fine today (Ymd d) = (today div day_us - d) * daily_fine"
    by (rule calculate_fine_overdue)
qed

theorem calculate_fine_monotone_witness:
  "calculate_fine (100 * day_us) (Ymd 100) = 0 \<and>
   calculate_fine (100 * day_us + 5) (Ymd 100) \<le> calculate_fine (103 * day_us) (Ymd 100) \<and>
   calculate_fine (103 * day_us - 1) (Ymd 100) = 2 * daily_fine"
  using calculate_fine_monotone [of "100 * day_us" 100 "100 * day_us + 5" "103 * day_us"]
    calculate_fine_monotone [of "103 * day_us - 1" 100 0 0]
  by (simp add: day_us_def)

section \<open>The index by id\<close>

lemma build_index_Nil: "build_index [] = Map.empty"
  by (simp add: build_index_def)

lemma build_index_snoc:
  "build_index (bs @ [b]) =
     (if id_book b \<noteq> 0 then (build_index bs)(id_book b \<mapsto> length bs) else build_index bs)"
  by (simp add: build_index_def enumerate_append_eq)

lemma is_last_snoc_hit:
  assumes "id_book b = k"
  shows "is_last_with_id (bs @ [b]) k i \<longleftrightarrow> i = length bs"
proof
  assume h: "is_last_with_id (bs @ [b]) k i"
  show "i = length bs"
  proof (rule ccontr)
    assume "i \<noteq> length bs"
    with h have "i < length bs" by (simp add: is_last_with_id_def)
    with h have "id_book ((bs @ [b]) ! length bs) \<noteq> k"
      unfolding is_last_with_id_def by (metis length_append_singleton lessI)
    with assms show False by simp
  qed
next
  assume "i = length bs"
  with assms show "is_last_with_id (bs @ [b]) k i" by (simp add: is_last_with_id_def)
qed

lemma is_last_snoc_miss:
  assumes "id_book b \<noteq> k"
  shows "is_last_with_id (bs @ [b]) k i \<longleftrightarrow> is_last_with_id bs k i"
proof
  assume h: "is_last_with_id (bs @ [b]) k i"
  then have "i \<noteq> length bs" using assms by (auto simp: is_last_with_id_def)
  with h have i: "i < length bs" by (simp add: is_last_with_id_def)
  have "\<forall>j. i < j \<and> j < length bs \<longrightarrow> id_book (bs ! j) \<noteq> k"
  proof (intro allI impI)
    fix j assume j: "i < j \<and> j < length bs"
    with h have "id_book ((bs @ [b]) ! j) \<noteq> k" by (simp add: is_last_with_id_def)
    with j show "id_book (bs ! j) \<noteq> k" by (simp add: nth_append)
  qed
  moreover from h i have "id_book (bs ! i) = k" by (simp add: is_last_with_id_def nth_append)
  ultimately show "is_last_with_id bs k i" using i by (simp add: is_last_with_id_def)
next
  assume h: "is_last_with_id bs k i"
  then have i: "i < length bs" by (simp add: is_last_with_id_def)
  have "\<forall>j. i < j \<and> j < length (bs @ [b]) \<longrightarrow> id_book ((bs @ [b]) ! j) \<noteq> k"
  proof (intro allI impI)
    fix j assume j: "i < j \<and> j < length (bs @ [b])"
    show "id_book ((bs @ [b]) ! j) \<noteq> k"
    proof (cases "j = length bs")
      case True then show ?thesis using assms by simp
    next
      case False
      with j have "j < length bs" by simp
      with h j show ?thesis by (simp add: is_last_with_id_def nth_append)
    qed
  qed
  with h i show "is_last_with_id (bs @ [b]) k i" by (simp add: is_last_with_id_def nth_append)
qed

lemma get_by_id_Some_iff:
  "get_by_id bs k = Some i \<longleftrightarrow> k \<noteq> 0 \<and> is_last_with_id bs k i"
proof (induction bs rule: rev_induct)
  case Nil
  then show ?case by (simp add: get_by_id_def build_index_Nil is_last_with_id_def)
next
  case (snoc b bs)
  show ?case
  proof (cases "id_book b = k")
    case True
    then show ?thesis
      using snoc by (cases "k = 0") (auto simp: get_by_id_def build_index_snoc is_last_snoc_hit)
  next
    case False
    then show ?thesis
      using snoc by (simp add: get_by_id_def build_index_snoc is_last_snoc_miss)
  qed
qed

lemma is_last_with_id_cong:
  assumes "map id_book bs = map id_book bs'"
  shows "is_last_with_id bs k i \<longleftrightarrow> is_last_with_id bs' k i"
proof -
  have len: "length bs = length bs'" using assms by (rule map_eq_imp_length_eq)
  have nth: "\<And>j. j < length bs \<Longrightarrow> id_book (bs ! j) = id_book (bs' ! j)"
    using assms len by (metis nth_map)
  show ?thesis unfolding is_last_with_id_def using len nth by auto
qed

lemma get_by_id_cong:
  assumes "map id_book bs = map id_book bs'"
  shows "get_by_id bs k = get_by_id bs' k"
proof (cases "get_by_id bs k")
  case None
  show ?thesis
  proof (cases "get_by_id bs' k")
    case None' : None
    with None show ?thesis by simp
  next
    case (Some i)
    then have "get_by_id bs k = Some i"
      using is_last_with_id_cong [OF assms] by (simp add: get_by_id_Some_iff)
    with None show ?thesis by simp
  qed
next
  case (Some i)
  then have "get_by_id bs' k = Some i"
    using is_last_with_id_cong [OF assms] by (simp add: get_by_id_Some_iff)
  with Some show ?thesis by simp
qed

lemma map_id_book_update:
  "i < length bs \<Longrightarrow> id_book b = id_book (bs ! i) \<Longrightarrow> map id_book (bs[i := b]) = map id_book bs"
  by (simp add: map_update list_update_same_conv)

section \<open>Issuing a book\<close>

lemma update_borrow_count_frame:
  "books (snd (update_borrow_count m d st)) = books st \<and>
   transactions (snd (update_borrow_count m d st)) = transactions st \<and>
   stock_history (snd (update_borrow_count m d st)) = stock_history st \<and>
   admin_saves (snd (update_borrow_count m d st)) = admin_saves st \<and>
   by_id (snd (update_borrow_count m d st)) = by_id st"
  by (simp add: update_borrow_count_def Let_def split: option.splits)

lemma update_borrow_count_members:
  assumes "first_index (\<lambda>m. id_member m = m_id) (members st) = Some k"
  shows "members (snd (update_borrow_count m_id 1 st)) =
     (members st)[k := (members st ! k)
        \<lparr>total_borrowed := total_borrowed (members st ! k) + 1,
         current_borrowed := max 0 (current_borrowed (members st ! k) + 1)\<rparr>]"
proof -
  obtain a b c d e f g h where m: "members st ! k =
      \<lparr>id_member = a, name = b, phone = c, membership_type = d, max_books = e, active = f,
       total_borrowed = g, current_borrowed = h\<rparr>"
    by (cases "members st ! k") simp
  show ?thesis
    using assms by (simp add: update_borrow_count_def Let_def max_def m)
qed

lemma issue_book_unindexed:
  assumes "by_id st b_id = None"
  shows "issue_book now b_id m_id st = ((False, Book_not_available), st)"
  using assms by (simp add: issue_book_def)

lemma issue_book_fail:
  assumes "by_id st b_id = Some i" "available_copies (books st ! i) \<le> 0"
  shows "issue_book now b_id m_id st = ((False, Book_not_available), st)"
  using assms by (simp add: issue_book_def)

lemma issue_book_success:
  assumes "by_id st b_id = Some i" "0 < available_copies (books st ! i)"
  shows "\<exists>st'. issue_book now b_id m_id st =
            ((True, Book_issued_successfully (Ymd (now div day_us + loan_period))), st') \<and>
          books st' = (books st)[i := (books st ! i)
             \<lparr>available_copies := available_copies (books st ! i) - 1\<rparr>] \<and>
          transactions st' = transactions st @
            [\<lparr> id_transaction = int (length (transactions st)) + 1, book_id = b_id,
               member_id = m_id, issue_date = Ymd (now div day_us),
               due_date = Ymd (now div day_us + loan_period), return_date = Unparsed [],
               status = ''issued'', fine_amount = 0, fine_paid = False, renewals = 0 \<rparr>] \<and>
          members st' = members (snd (update_borrow_count m_id 1 st)) \<and>
          stock_history st' = stock_history st \<and> admin_saves st' = admin_saves st \<and>
          by_id st' = by_id st"
proof -
  have due: "(now + timedelta_days loan_period) div day_us = now div day_us + loan_period"
    by (simp add: timedelta_days_def day_us_def)
  show ?thesis
    using assms
    by (simp add: issue_book_def Let_def strftime_ymd_def due update_borrow_count_frame
        update_borrow_count_def split: option.splits)
qed

text \<open>
  What \<open>issue_book\<close> does when the stored index has the book: if the index gives the book
  at position \<open>i\<close> of the catalog for the id, then without an available copy nothing
  changes and the answer is "Book not available"; with one, exactly one copy is taken from
  that book, exactly one transaction in state issued, due 14 days after its issue date, is
  appended, and an existing member's total count grows by one and its current count by
  one, from 0 if it was negative.
\<close>

lemma issue_book_indexed:
  assumes "by_id st b_id = Some i"
  shows
    "(available_copies (books st ! i) \<le> 0 \<longrightarrow>
        issue_book now b_id m_id st = ((False, Book_not_available), st)) \<and>
     (0 < available_copies (books st ! i) \<and>
      first_index (\<lambda>m. id_member m = m_id) (members st) = Some k \<longrightarrow>
        (\<exists>msg st' t.
           issue_book now b_id m_id st = ((True, msg), st') \<and>
           books st' = (books st)[i := (books st ! i)
              \<lparr>available_copies := available_copies (books st ! i) - 1\<rparr>] \<and>
           transactions st' = transactions st @ [t] \<and>
           status t = ''issued'' \<and> book_id t = b_id \<and> member_id t = m_id \<and>
           issue_date t = Ymd (now div day_us) \<and> due_date t = Ymd (now div day_us + 14) \<and>
           members st' = (members st)[k := (members st ! k)
              \<lparr>total_borrowed := total_borrowed (members st ! k) + 1,
               current_borrowed := max 0 (current_borrowed (members st ! k) + 1)\<rparr>] \<and>
           stock_history st' = stock_history st \<and> admin_saves st' = admin_saves st \<and>
           by_id st' = by_id st))"
proof (intro conjI impI)
  assume "available_copies (books st ! i) \<le> 0"
  with assms show "issue_book now b_id m_id st = ((False, Book_not_available), st)"
    by (rule issue_book_fail)
next
  assume h: "0 < available_copies (books st ! i) \<and>
      first_index (\<lambda>m. id_member m = m_id) (members st) = Some k"
  then have av: "0 < available_copies (books st ! i)" by simp
  from issue_book_success [OF assms av, of now m_id] obtain st' where
    st': "issue_book now b_id m_id st =
            ((True, Book_issued_successfully (Ymd (now div day_us + loan_period))), st') \<and>
          books st' = (books st)[i := (books st ! i)
             \<lparr>available_copies := available_copies (books st ! i) - 1\<rparr>] \<and>
          transactions st' = transactions st @
            [\<lparr> id_transaction = int (length (transactions st)) + 1, book_id = b_id,
               member_id = m_id, issue_date = Ymd (now div day_us),
               due_date = Ymd (now div day_us + loan_period), return_date = Unparsed [],
               status = ''issued'', fine_amount = 0, fine_paid = False, renewals = 0 \<rparr>] \<and>
          members st' = members (snd (update_borrow_count m_id 1 st)) \<and>
          stock_history st' = stock_history st \<and> admin_saves st' = admin_saves st \<and>
          by_id st' = by_id st"
    by blast
  have "members st' = (members st)[k := (members st ! k)
              \<lparr>total_borrowed := total_borrowed (members st ! k) + 1,
               current_borrowed := max 0 (current_borrowed (members st ! k) + 1)\<rparr>]"
    using st' h update_borrow_count_members by simp
  with st' show "\<exists>msg st' t.
           issue_book now b_id m_id st = ((True, msg), st') \<and>
           books st' = (books st)[i := (books st ! i)
              \<lparr>available_copies := available_copies (books st ! i) - 1\<rparr>] \<and>
           transactions st' = transactions st @ [t] \<and>
           status t = ''issued'' \<and> book_id t = b_id \<and> member_id t = m_id \<and>
           issue_date t = Ymd (now div day_us) \<and> due_date t = Ymd (now div day_us + 14) \<and>
           members st' = (members st)[k := (members st ! k)
              \<lparr>total_borrowed := total_borrowed (members st ! k) + 1,
               current_borrowed := max 0 (current_borrowed (members st ! k) + 1)\<rparr>] \<and>
           stock_history st' = stock_history st \<and> admin_saves st' = admin_saves st \<and>
           by_id st' = by_id st"
    by (simp add: loan_period_def)
qed

text \<open>
  Claim C3 on the code. \<open>ExcelManager.import_from_excel\<close>, which \<open>auto_import_from_excel\<close>
  runs at a start with an empty catalog, clears the book list and fills it from the sheet
  without running \<open>build_index\<close>: the catalog then has its books and the stored index is
  still the one built from the empty list. In that state \<open>issue_book\<close> answers "Book not
  available" for a book with 5 available copies of 5 and an existing member, and changes
  nothing. With the index built from the same catalog the same call succeeds.
\<close>

theorem issue_book_stale_index:
  "issue_book 0 1 ''M0001''
     ((a_library [] [a_member ''M0001'' 0 0])\<lparr>books := [a_book 1 ''B'' ''I'' 5 5]\<rparr>) =
   ((False, Book_not_available),
     (a_library [] [a_member ''M0001'' 0 0])\<lparr>books := [a_book 1 ''B'' ''I'' 5 5]\<rparr>) \<and>
   fst (issue_book 0 1 ''M0001''
     (a_library [a_book 1 ''B'' ''I'' 5 5] [a_member ''M0001'' 0 0])) =
   (True, Book_issued_successfully (Ymd 14)) \<and>
   books (snd (issue_book 0 1 ''M0001''
     (a_library [a_book 1 ''B'' ''I'' 5 5] [a_member ''M0001'' 0 0]))) =
   [a_book 1 ''B'' ''I'' 5 4]"
  by (simp add: issue_book_def a_library_def a_book_def a_member_def build_index_def
      update_borrow_count_def Let_def strftime_ymd_def timedelta_days_def loan_period_def
      day_us_def)

section \<open>Restocking\<close>

lemma first_index_SomeD:
  "first_index P xs = Some i \<Longrightarrow> i < length xs \<and> P (xs ! i)"
proof (induction xs arbitrary: i)
  case Nil
  then show ?case by simp
next
  case (Cons x xs)
  show ?case
  proof (cases "P x")
    case True
    with Cons.prems show ?thesis by simp
  next
    case False
    with Cons.prems obtain j where j: "first_index P xs = Some j" "i = Suc j"
      by (auto simp: map_option_case split: option.splits)
    from Cons.IH [OF j(1)] j(2) show ?thesis by simp
  qed
qed

lemma first_index_first:
  "first_index P xs = Some i \<Longrightarrow> j < i \<Longrightarrow> \<not> P (xs ! j)"
proof (induction xs arbitrary: i j)
  case Nil
  then show ?case by simp
next
  case (Cons x xs)
  show ?case
  proof (cases "P x")
    case True
    with Cons.prems show ?thesis by simp
  next
    case False
    with Cons.prems obtain i' where i': "first_index P xs = Some i'" "i = Suc i'"
      by (auto simp: map_option_case split: option.splits)
    show ?thesis
    proof (cases j)
      case 0
      with False show ?thesis by simp
    next
      case (Suc j')
      with Cons.prems i' have "j' < i'" by simp
      from Cons.IH [OF i'(1) this] Suc show ?thesis by simp
    qed
  qed
qed

lemma first_index_None_iff: "first_index P xs = None \<longleftrightarrow> (\<forall>x\<in>set xs. \<not> P x)"
  by (induction xs) auto

lemma restock_at_books:
  "books (restock_at now i q act src nts st) =
     (books st)[i := (books st ! i)\<lparr>available_copies := available_copies (books st ! i) + q,
                                   total_copies := total_copies (books st ! i) + q\<rparr>]"
  by (simp add: restock_at_def Let_def)

lemma restock_at_history:
  "stock_history (restock_at now i q act src nts st) = stock_history st @
     [\<lparr> history_id = int (length (stock_history st)) + 1,
        hist_book_id = id_book (books st ! i), book_title = title (books st ! i),
        book_author = author (books st ! i), book_isbn = isbn (books st ! i),
        action = act, quantity_added = q,
        old_stock = available_copies (books st ! i),
        new_stock = available_copies (books st ! i) + q,
        old_total = total_copies (books st ! i),
        new_total = total_copies (books st ! i) + q,
        source = src, notes_text = nts, timestamp = strftime_ymd_hms now,
        performed_by = ''admin'' \<rparr>]"
  by (simp add: restock_at_def Let_def)

lemma restock_at_frame:
  "members (restock_at now i q act src nts st) = members st \<and>
   transactions (restock_at now i q act src nts st) = transactions st \<and>
   admin_saves (restock_at now i q act src nts st) = admin_saves st"
  by (simp add: restock_at_def Let_def)

text \<open>
  Claim C7. For a book id that the catalog has (the scan stops at the first book with the
  id, at position \<open>i\<close>) and any quantity, in particular a positive one, \<open>restock_book\<close>
  returns \<open>True\<close> with the book, whose available and total copies have both grown by
  exactly the quantity, so that the number of copies on loan is the same; no other book
  changes; and exactly one history record is appended, holding the quantity added and the
  old and new available and total counts.
\<close>

theorem restock_book_spec:
  assumes "first_index (\<lambda>b. id_book b = b_id) (books st) = Some i"
  shows "\<exists>bk' st' r.
      restock_book now b_id quantity src nts st = ((True, Some bk'), st') \<and>
      bk' = (books st ! i)\<lparr>available_copies := available_copies (books st ! i) + quantity,
                            total_copies := total_copies (books st ! i) + quantity\<rparr> \<and>
      total_copies bk' - available_copies bk' =
        total_copies (books st ! i) - available_copies (books st ! i) \<and>
      books st' = (books st)[i := bk'] \<and>
      stock_history st' = stock_history st @ [r] \<and>
      action r = ''restock'' \<and> hist_book_id r = b_id \<and> quantity_added r = quantity \<and>
      old_stock r = available_copies (books st ! i) \<and>
      new_stock r = available_copies (books st ! i) + quantity \<and>
      old_total r = total_copies (books st ! i) \<and>
      new_total r = total_copies (books st ! i) + quantity \<and>
      source r = src \<and> notes_text r = nts"
proof -
  from first_index_SomeD [OF assms] have i: "i < length (books st)"
    and k: "id_book (books st ! i) = b_id" by simp_all
  show ?thesis
    using assms i k
    by (simp add: restock_book_def Let_def restock_at_books restock_at_history)
qed

theorem restock_book_spec_witness:
  "\<exists>st' r.
      restock_book 0 1 3 ''Purchase'' [] (a_library [a_book 1 ''B'' ''I'' 5 0] [])
        = ((True, Some (a_book 1 ''B'' ''I'' 8 3)), st') \<and>
      books st' = [a_book 1 ''B'' ''I'' 8 3] \<and>
      stock_history st' = [r] \<and> quantity_added r = 3 \<and>
      old_stock r = 0 \<and> new_stock r = 3 \<and> old_total r = 5 \<and> new_total r = 8"
proof -
  have h: "first_index (\<lambda>b. id_book b = 1) (books (a_library [a_book 1 ''B'' ''I'' 5 0] []))
      = Some 0"
    by (simp add: a_book_def a_library_def)
  show ?thesis
    using restock_book_spec [OF h, of 0 3 "''Purchase''" "[]"]
    by (simp add: a_library_def a_book_def) blast
qed

section \<open>Bulk restocking\<close>

lemma first_index_map: "first_index (\<lambda>b. f b = c) bs = first_index (\<lambda>x. x = c) (map f bs)"
  by (induction bs) simp_all

lemma first_index_isbn_cong:
  "map isbn bs' = map isbn bs \<Longrightarrow>
   first_index (\<lambda>b. isbn b = c) bs' = first_index (\<lambda>b. isbn b = c) bs"
  by (simp add: first_index_map [of isbn])

lemma quantity_for_cong:
  assumes "map isbn bs' = map isbn bs"
  shows "quantity_for bs' i rows = quantity_for bs i rows"
  by (simp add: quantity_for_def first_index_isbn_cong [OF assms])

lemma restock_at_isbn:
  "i < length (books st) \<Longrightarrow>
   map isbn (books (restock_at now i q act src nts st)) = map isbn (books st)"
  by (simp add: restock_at_books map_update list_update_same_conv)

lemma restock_at_length:
  "length (books (restock_at now i q act src nts st)) = length (books st)"
  by (simp add: restock_at_books)

lemma restock_at_nth:
  "j < length (books st) \<Longrightarrow>
   books (restock_at now i q act src nts st) ! j =
     (if j = i then (books st ! i)\<lparr>available_copies := available_copies (books st ! i) + q,
                                   total_copies := total_copies (books st ! i) + q\<rparr>
      else books st ! j)"
  by (simp add: restock_at_books nth_list_update)

lemma quantity_for_Cons:
  "quantity_for bs i ((c, Some q) # rows) =
     (if first_index (\<lambda>b. isbn b = c) bs = Some i then q else 0) + quantity_for bs i rows"
  by (simp add: quantity_for_def)

lemma restock_at_title:
  "j < length (books st) \<Longrightarrow>
   title (books (restock_at now i q act src nts st) ! j) = title (books st ! j)"
  by (simp add: restock_at_nth)

lemma restock_at_history_length:
  "length (stock_history (restock_at now i q act src nts st)) = Suc (length (stock_history st))"
  by (simp add: restock_at_history)

lemma restock_row_miss:
  "first_index (\<lambda>b. isbn b = c) (books s) = None \<Longrightarrow>
   restock_row now c q (rs, sk, s) = (rs, sk @ [c], s)"
  by (simp add: restock_row_def)

lemma restock_row_hit:
  "first_index (\<lambda>b. isbn b = c) (books s) = Some i \<Longrightarrow>
   restock_row now c q (rs, sk, s) =
     (rs @ [title (books s ! i)], sk,
      restock_at now i q ''bulk_restock'' ''Excel Import'' ''Bulk restock from Excel file'' s)"
  by (simp add: restock_row_def)

lemma restock_rows_spec:
  assumes "\<forall>r\<in>set rows. snd r \<noteq> None"
  shows "\<exists>s'. restock_rows clock k rows (rs, sk, s) =
           (True,
            rs @ map (\<lambda>r. title (books s ! the (first_index (\<lambda>b. isbn b = fst r) (books s))))
                   (filter (\<lambda>r. first_index (\<lambda>b. isbn b = fst r) (books s) \<noteq> None) rows),
            sk @ map fst (filter (\<lambda>r. first_index (\<lambda>b. isbn b = fst r) (books s) = None) rows),
            s') \<and>
         length (books s') = length (books s) \<and>
         (\<forall>i<length (books s). books s' ! i =
            (books s ! i)\<lparr>available_copies :=
                 available_copies (books s ! i) + quantity_for (books s) i rows,
               total_copies := total_copies (books s ! i) + quantity_for (books s) i rows\<rparr>) \<and>
         length (stock_history s') = length (stock_history s) +
            length (filter (\<lambda>r. first_index (\<lambda>b. isbn b = fst r) (books s) \<noteq> None) rows) \<and>
         members s' = members s \<and> transactions s' = transactions s \<and>
         admin_saves s' = admin_saves s"
  using assms
proof (induction rows arbitrary: k rs sk s)
  case Nil
  then show ?case by (simp add: quantity_for_def)
next
  case (Cons r rows)
  obtain c qo where r: "r = (c, qo)" by (cases r)
  with Cons.prems obtain q where q: "qo = Some q" by auto
  from Cons.prems have rest: "\<forall>r\<in>set rows. snd r \<noteq> None" by simp
  show ?case
  proof (cases "first_index (\<lambda>b. isbn b = c) (books s)")
    case None
    from Cons.IH [OF rest, of "Suc k" rs "sk @ [c]" s] obtain s' where
      s': "restock_rows clock (Suc k) rows (rs, sk @ [c], s) =
           (True,
            rs @ map (\<lambda>r. title (books s ! the (first_index (\<lambda>b. isbn b = fst r) (books s))))
                   (filter (\<lambda>r. first_index (\<lambda>b. isbn b = fst r) (books s) \<noteq> None) rows),
            (sk @ [c]) @ map fst (filter (\<lambda>r. first_index (\<lambda>b. isbn b = fst r) (books s) = None) rows),
            s')"
      and rest': "length (books s') = length (books s)"
        "\<forall>i<length (books s). books s' ! i =
            (books s ! i)\<lparr>available_copies :=
                 available_copies (books s ! i) + quantity_for (books s) i rows,
               total_copies := total_copies (books s ! i) + quantity_for (books s) i rows\<rparr>"
        "length (stock_history s') = length (stock_history s) +
            length (filter (\<lambda>r. first_index (\<lambda>b. isbn b = fst r) (books s) \<noteq> None) rows)"
        "members s' = members s" "transactions s' = transactions s"
        "admin_saves s' = admin_saves s"
      by blast
    have run: "restock_rows clock k (r # rows) (rs, sk, s) =
        restock_rows clock (Suc k) rows (rs, sk @ [c], s)"
      by (simp add: r q restock_row_miss [OF None])
    have qf: "\<And>i. quantity_for (books s) i (r # rows) = quantity_for (books s) i rows"
      by (simp add: r q quantity_for_Cons None)
    show ?thesis
      apply (rule exI [of _ s'])
      using rest' by (simp add: run s' qf) (simp add: r None)
  next
    case (Some i0)
    from first_index_SomeD [OF Some] have i0: "i0 < length (books s)" by simp
    define s1 where "s1 = restock_at (clock k) i0 q ''bulk_restock'' ''Excel Import''
        ''Bulk restock from Excel file'' s"
    have isbn1: "map isbn (books s1) = map isbn (books s)"
      unfolding s1_def using i0 by (rule restock_at_isbn)
    have len1: "length (books s1) = length (books s)"
      unfolding s1_def by (rule restock_at_length)
    have fi: "\<And>c'. first_index (\<lambda>b. isbn b = c') (books s1) = first_index (\<lambda>b. isbn b = c') (books s)"
      using isbn1 by (rule first_index_isbn_cong)
    have qf1: "\<And>i. quantity_for (books s1) i rows = quantity_for (books s) i rows"
      using isbn1 by (rule quantity_for_cong)
    have t1: "\<And>j. j < length (books s) \<Longrightarrow> title (books s1 ! j) = title (books s ! j)"
      unfolding s1_def by (rule restock_at_title)
    from Cons.IH [OF rest, of "Suc k" "rs @ [title (books s ! i0)]" sk s1] obtain s' where
      s': "restock_rows clock (Suc k) rows (rs @ [title (books s ! i0)], sk, s1) =
           (True,
            (rs @ [title (books s ! i0)]) @
               map (\<lambda>r. title (books s1 ! the (first_index (\<lambda>b. isbn b = fst r) (books s1))))
                   (filter (\<lambda>r. first_index (\<lambda>b. isbn b = fst r) (books s1) \<noteq> None) rows),
            sk @ map fst (filter (\<lambda>r. first_index (\<lambda>b. isbn b = fst r) (books s1) = None) rows),
            s')"
      and rest': "length (books s') = length (books s1)"
        "\<forall>i<length (books s1). books s' ! i =
            (books s1 ! i)\<lparr>available_copies :=
                 available_copies (books s1 ! i) + quantity_for (books s1) i rows,
               total_copies := total_copies (books s1 ! i) + quantity_for (books s1) i rows\<rparr>"
        "length (stock_history s') = length (stock_history s1) +
            length (filter (\<lambda>r. first_index (\<lambda>b. isbn b = fst r) (books s1) \<noteq> None) rows)"
        "members s' = members s1" "transactions s' = transactions s1"
        "admin_saves s' = admin_saves s1"
      by blast
    have run: "restock_rows clock k (r # rows) (rs, sk, s) =
        restock_rows clock (Suc k) rows (rs @ [title (books s ! i0)], sk, s1)"
      by (simp add: r q restock_row_hit [OF Some] s1_def)
    have titles: "map (\<lambda>r. title (books s1 ! the (first_index (\<lambda>b. isbn b = fst r) (books s))))
                   (filter (\<lambda>r. first_index (\<lambda>b. isbn b = fst r) (books s) \<noteq> None) rows) =
        map (\<lambda>r. title (books s ! the (first_index (\<lambda>b. isbn b = fst r) (books s))))
                   (filter (\<lambda>r. first_index (\<lambda>b. isbn b = fst r) (books s) \<noteq> None) rows)"
    proof (rule map_cong [OF refl])
      fix x assume "x \<in> set (filter (\<lambda>r. first_index (\<lambda>b. isbn b = fst r) (books s) \<noteq> None) rows)"
      then obtain j where j: "first_index (\<lambda>b. isbn b = fst x) (books s) = Some j" by auto
      from first_index_SomeD [OF j] have "j < length (books s)" by simp
      then show "title (books s1 ! the (first_index (\<lambda>b. isbn b = fst x) (books s))) =
          title (books s ! the (first_index (\<lambda>b. isbn b = fst x) (books s)))"
        by (simp add: j t1)
    qed
    have nth: "\<forall>i<length (books s). books s' ! i =
            (books s ! i)\<lparr>available_copies :=
                 available_copies (books s ! i) + quantity_for (books s) i (r # rows),
               total_copies := total_copies (books s ! i) + quantity_for (books s) i (r # rows)\<rparr>"
    proof (intro allI impI)
      fix i assume i: "i < length (books s)"
      with rest'(2) len1 have "books s' ! i =
            (books s1 ! i)\<lparr>available_copies :=
                 available_copies (books s1 ! i) + quantity_for (books s) i rows,
               total_copies := total_copies (books s1 ! i) + quantity_for (books s) i rows\<rparr>"
        by (simp add: qf1)
      then show "books s' ! i =
            (books s ! i)\<lparr>available_copies :=
                 available_copies (books s ! i) + quantity_for (books s) i (r # rows),
               total_copies := total_copies (books s ! i) + quantity_for (books s) i (r # rows)\<rparr>"
        using i by (auto simp: s1_def restock_at_nth r q quantity_for_Cons Some)
    qed
    have hist: "length (stock_history s1) = Suc (length (stock_history s))"
      unfolding s1_def by (rule restock_at_history_length)
    have frame1: "members s1 = members s" "transactions s1 = transactions s"
      "admin_saves s1 = admin_saves s"
      unfolding s1_def by (simp_all add: restock_at_frame)
    have s'': "restock_rows clock (Suc k) rows (rs @ [title (books s ! i0)], sk, s1) =
           (True,
            (rs @ [title (books s ! i0)]) @
               map (\<lambda>r. title (books s ! the (first_index (\<lambda>b. isbn b = fst r) (books s))))
                   (filter (\<lambda>r. first_index (\<lambda>b. isbn b = fst r) (books s) \<noteq> None) rows),
            sk @ map fst (filter (\<lambda>r. first_index (\<lambda>b. isbn b = fst r) (books s) = None) rows),
            s')"
      using s' by (simp only: fi titles)
    have hl: "length (stock_history s') = length (stock_history s) +
            length (filter (\<lambda>r. first_index (\<lambda>b. isbn b = fst r) (books s) \<noteq> None) (r # rows))"
      using rest'(3) by (simp only: fi hist) (simp add: r Some)
    have res: "restock_rows clock k (r # rows) (rs, sk, s) =
           (True,
            rs @ map (\<lambda>r. title (books s ! the (first_index (\<lambda>b. isbn b = fst r) (books s))))
                   (filter (\<lambda>r. first_index (\<lambda>b. isbn b = fst r) (books s) \<noteq> None) (r # rows)),
            sk @ map fst (filter (\<lambda>r. first_index (\<lambda>b. isbn b = fst r) (books s) = None) (r # rows)),
            s')"
      unfolding run s'' by (simp add: r Some)
    show ?thesis
      using res hl nth rest'(1,4,5,6) len1 frame1 by metis
  qed
qed

text \<open>
  Claim C8. When the sheet has both columns and every quantity converts, the bulk restock
  treats each row on its own and ends with \<open>True\<close> and its summary, whatever ISBNs are
  unknown: the skipped list holds, in row order, exactly the ISBNs that no book has; the
  restocked list holds the titles of the books found; each book of the catalog gains, in
  available and in total copies, the sum of the quantities of the rows that found it; and
  one history record is appended for each row that found a book.
\<close>

theorem bulk_restock_from_excel_spec:
  assumes "''ISBN'' \<in> set columns" and "''Quantity'' \<in> set columns"
    and "\<forall>r\<in>set rows. snd r \<noteq> None"
  shows "\<exists>st'. bulk_restock_from_excel clock (Sheet columns rows) st =
           ((True, Bulk_Restock_Summary
              (map (\<lambda>r. title (books st ! the (first_index (\<lambda>b. isbn b = fst r) (books st))))
                 (filter (\<lambda>r. first_index (\<lambda>b. isbn b = fst r) (books st) \<noteq> None) rows))
              (map fst (filter (\<lambda>r. first_index (\<lambda>b. isbn b = fst r) (books st) = None) rows))),
            st') \<and>
         length (books st') = length (books st) \<and>
         (\<forall>i<length (books st). books st' ! i =
            (books st ! i)\<lparr>available_copies :=
                 available_copies (books st ! i) + quantity_for (books st) i rows,
               total_copies := total_copies (books st ! i) + quantity_for (books st) i rows\<rparr>) \<and>
         length (stock_history st') = length (stock_history st) +
            length (filter (\<lambda>r. first_index (\<lambda>b. isbn b = fst r) (books st) \<noteq> None) rows)"
proof -
  from restock_rows_spec [OF assms(3), of clock 0 "[]" "[]" st] obtain s' where
    run: "restock_rows clock 0 rows ([], [], st) =
           (True,
            [] @ map (\<lambda>r. title (books st ! the (first_index (\<lambda>b. isbn b = fst r) (books st))))
                   (filter (\<lambda>r. first_index (\<lambda>b. isbn b = fst r) (books st) \<noteq> None) rows),
            [] @ map fst (filter (\<lambda>r. first_index (\<lambda>b. isbn b = fst r) (books st) = None) rows),
            s')"
    and rest: "length (books s') = length (books st)"
      "\<forall>i<length (books st). books s' ! i =
            (books st ! i)\<lparr>available_copies :=
                 available_copies (books st ! i) + quantity_for (books st) i rows,
               total_copies := total_copies (books st ! i) + quantity_for (books st) i rows\<rparr>"
      "length (stock_history s') = length (stock_history st) +
            length (filter (\<lambda>r. first_index (\<lambda>b. isbn b = fst r) (books st) \<noteq> None) rows)"
    by blast
  have "bulk_restock_from_excel clock (Sheet columns rows) st =
           ((True, Bulk_Restock_Summary
              (map (\<lambda>r. title (books st ! the (first_index (\<lambda>b. isbn b = fst r) (books st))))
                 (filter (\<lambda>r. first_index (\<lambda>b. isbn b = fst r) (books st) \<noteq> None) rows))
              (map fst (filter (\<lambda>r. first_index (\<lambda>b. isbn b = fst r) (books st) = None) rows))),
            s')"
    using assms(1,2) by (simp add: bulk_restock_from_excel_def run)
  with rest show ?thesis by blast
qed

theorem bulk_restock_from_excel_spec_witness:
  "\<exists>st'. bulk_restock_from_excel (\<lambda>k. 0)
       (Sheet [''ISBN'', ''Quantity'']
          [(''I1'', Some 2), (''X1'', Some 1), (''I2'', Some 3), (''X2'', Some 4), (''I3'', Some 5)])
       (a_library [a_book 1 ''B1'' ''I1'' 5 0, a_book 2 ''B2'' ''I2'' 4 4,
                   a_book 3 ''B3'' ''I3'' 2 1] [])
     = ((True, Bulk_Restock_Summary [''B1'', ''B2'', ''B3''] [''X1'', ''X2'']), st') \<and>
     length (books st') = 3 \<and>
     books st' ! 0 = a_book 1 ''B1'' ''I1'' 7 2 \<and>
     books st' ! 1 = a_book 2 ''B2'' ''I2'' 7 7 \<and>
     books st' ! 2 = a_book 3 ''B3'' ''I3'' 7 6 \<and>
     length (stock_history st') = 3"
proof -
  let ?rows = "[(''I1'', Some 2), (''X1'', Some 1), (''I2'', Some 3), (''X2'', Some 4),
      (''I3'', Some (5::int))]"
  let ?bs = "[a_book 1 ''B1'' ''I1'' 5 0, a_book 2 ''B2'' ''I2'' 4 4, a_book 3 ''B3'' ''I3'' 2 1]"
  let ?f = "\<lambda>c. first_index (\<lambda>b. isbn b = c) ?bs"
  have c: "''ISBN'' \<in> set [''ISBN'', ''Quantity'']" "''Quantity'' \<in> set [''ISBN'', ''Quantity'']"
    by simp_all
  have q: "\<forall>r\<in>set ?rows. snd r \<noteq> None"
    by simp
  have b: "books (a_library ?bs []) = ?bs" "stock_history (a_library ?bs []) = []"
    by (simp_all add: a_library_def)
  have qf: "quantity_for ?bs 0 ?rows = 2" "quantity_for ?bs (Suc 0) ?rows = 3"
    "quantity_for ?bs 2 ?rows = 5"
    by (simp_all add: quantity_for_def a_book_def)
  from bulk_restock_from_excel_spec [OF c q, of "\<lambda>k. 0" "a_library ?bs []"]
  obtain st' where
    r: "bulk_restock_from_excel (\<lambda>k. 0) (Sheet [''ISBN'', ''Quantity''] ?rows) (a_library ?bs []) =
           ((True, Bulk_Restock_Summary
              (map (\<lambda>r. title (?bs ! the (?f (fst r)))) (filter (\<lambda>r. ?f (fst r) \<noteq> None) ?rows))
              (map fst (filter (\<lambda>r. ?f (fst r) = None) ?rows))), st')"
    and len: "length (books st') = length ?bs"
    and nth: "\<forall>i<length ?bs. books st' ! i =
            (?bs ! i)\<lparr>available_copies := available_copies (?bs ! i) + quantity_for ?bs i ?rows,
               total_copies := total_copies (?bs ! i) + quantity_for ?bs i ?rows\<rparr>"
    and h: "length (stock_history st') = length ([]::history_record list) +
            length (filter (\<lambda>r. ?f (fst r) \<noteq> None) ?rows)"
    unfolding b by blast
  have r': "bulk_restock_from_excel (\<lambda>k. 0) (Sheet [''ISBN'', ''Quantity''] ?rows)
       (a_library ?bs []) =
     ((True, Bulk_Restock_Summary [''B1'', ''B2'', ''B3''] [''X1'', ''X2'']), st')"
    unfolding r by (simp add: a_book_def)
  have n0: "books st' ! 0 = a_book 1 ''B1'' ''I1'' 7 2"
    using nth [rule_format, of 0] by (simp add: qf) (simp add: a_book_def)
  have n1: "books st' ! 1 = a_book 2 ''B2'' ''I2'' 7 7"
    using nth [rule_format, of 1] by (simp add: qf) (simp add: a_book_def)
  have n2: "books st' ! 2 = a_book 3 ''B3'' ''I3'' 7 6"
    using nth [rule_format, of 2] by (simp add: qf) (simp add: a_book_def)
  have h': "length (stock_history st') = 3"
    using h by (simp add: a_book_def)
  from r' len n0 n1 n2 h' show ?thesis by simp
qed

section \<open>Updating a book\<close>

lemma overwrite_fields_total:
  "total_copies (overwrite_fields u bk) = dict_get (upd_total_copies u) (total_copies bk)"
  by (simp add: overwrite_fields_def)

lemma overwrite_fields_available:
  "available_copies (overwrite_fields u bk) =
     dict_get (upd_available_copies u) (available_copies bk)"
  by (simp add: overwrite_fields_def)

lemma update_book_found:
  assumes "first_index (\<lambda>b. id_book b = b_id) (books st) = Some i"
  shows "update_book b_id u st =
     (True, st\<lparr>books := (books st)[i := overwrite_fields u (books st ! i)],
               by_id := build_index ((books st)[i := overwrite_fields u (books st ! i)])\<rparr>)"
proof (cases "upd_total_copies u")
  case None
  with assms show ?thesis by (simp add: update_book_def Let_def)
next
  case (Some n)
  then have "total_copies (overwrite_fields u (books st ! i)) = n"
    by (simp add: overwrite_fields_total dict_get_def)
  with assms Some show ?thesis by (simp add: update_book_def Let_def)
qed

lemma update_book_available_unchanged:
  assumes "first_index (\<lambda>b. id_book b = b_id) (books st) = Some i"
    and "upd_available_copies u = None"
  shows "available_copies (books (snd (update_book b_id u st)) ! i) =
     available_copies (books st ! i)"
proof -
  from first_index_SomeD [OF assms(1)] have "i < length (books st)" by simp
  then show ?thesis
    using assms(2)
    by (simp add: update_book_found [OF assms(1)] overwrite_fields_available dict_get_def)
qed

text \<open>
  Claim C4, as the code has it. \<open>update_book\<close> makes no check of the new total against the
  copies on loan: for every book id that the catalog has and every new total, also one
  below the number of copies on loan, it returns \<open>True\<close> and the book's total becomes the
  new total.
\<close>

theorem update_book_never_rejects:
  assumes "first_index (\<lambda>b. id_book b = b_id) (books st) = Some i"
    and "upd_total_copies u = Some n"
  shows "\<exists>st'. update_book b_id u st = (True, st') \<and>
           length (books st') = length (books st) \<and>
           total_copies (books st' ! i) = n"
proof -
  from first_index_SomeD [OF assms(1)] have "i < length (books st)" by simp
  then show ?thesis
    using assms(2)
    by (simp add: update_book_found [OF assms(1)] overwrite_fields_total dict_get_def)
qed

theorem update_book_never_rejects_witness:
  "\<exists>st'. update_book 1 (no_update\<lparr>upd_total_copies := Some 2\<rparr>)
            (a_library [a_book 1 ''B'' ''I'' 5 1] []) = (True, st') \<and>
         length (books st') = 1 \<and> total_copies (books st' ! 0) = 2"
proof -
  have h: "first_index (\<lambda>b. id_book b = 1) (books (a_library [a_book 1 ''B'' ''I'' 5 1] []))
      = Some 0"
    by (simp add: a_library_def a_book_def)
  have u: "upd_total_copies (no_update\<lparr>upd_total_copies := Some 2\<rparr>) = Some 2"
    by simp
  from update_book_never_rejects [OF h u] show ?thesis
    by (simp add: a_library_def)
qed

text \<open>The scenario of claim C4 on the code: at 1 available copy of 5, with 4 on loan, the
  update to a total of 2 is accepted.\<close>

theorem update_book_below_issued_accepted:
  "update_book 1 (no_update\<lparr>upd_total_copies := Some 2\<rparr>)
     (a_library [a_book 1 ''B'' ''I'' 5 1] []) =
   (True, a_library [a_book 1 ''B'' ''I'' 2 1] [])"
  by (simp add: update_book_def a_library_def a_book_def no_update_def overwrite_fields_def
      dict_get_def Let_def)

text \<open>
  Claim C5 on the code. An update that carries only a new total leaves the available
  copies as they were: at 5 available copies of 5, the update to a total of 8 gives 5
  available of 8, not 8, and the update to a total of 2 gives 5 available of 2.
\<close>

theorem update_book_total_only:
  "update_book 1 (no_update\<lparr>upd_total_copies := Some 8\<rparr>)
     (a_library [a_book 1 ''B'' ''I'' 5 5] []) =
   (True, a_library [a_book 1 ''B'' ''I'' 8 5] []) \<and>
   update_book 1 (no_update\<lparr>upd_total_copies := Some 2\<rparr>)
     (a_library [a_book 1 ''B'' ''I'' 5 5] []) =
   (True, a_library [a_book 1 ''B'' ''I'' 2 5] [])"
  by (simp add: update_book_def a_library_def a_book_def no_update_def overwrite_fields_def
      dict_get_def Let_def)

section \<open>Deleting books\<close>

lemma delete_book_blocked:
  assumes "first_index (\<lambda>b. id_book b = b_id) (books st) = Some i"
    and "available_copies (books st ! i) < total_copies (books st ! i)"
  shows "delete_book b_id st = ((False, [''Cannot Delete'']), st)"
  using assms by (simp add: delete_book_def)

lemma delete_book_removes:
  assumes "first_index (\<lambda>b. id_book b = b_id) (books st) = Some i"
    and "\<not> available_copies (books st ! i) < total_copies (books st ! i)"
  shows "delete_book b_id st =
     ((True, []), st\<lparr>books := del_at i (books st),
                     by_id := build_index (del_at i (books st))\<rparr>)"
  using assms by (simp add: delete_book_def)

lemma delete_book_not_found:
  assumes "first_index (\<lambda>b. id_book b = b_id) (books st) = None"
  shows "delete_book b_id st = ((False, []), st)"
  using assms by (simp add: delete_book_def)

text \<open>
  Claim C6 on the code. The single deletion keeps a book with copies on loan (the three
  lemmas above). The bulk deletion checks the book that the index gives for an id, the
  last one with the id, and then deletes the first book of the list with that id. Three
  books are added, the third is issued, the first is deleted, and a fourth book is added:
  it gets the id 3 again. Deleting the selection [3] then removes the book that has its
  only copy on loan and reports success.
\<close>

theorem delete_selected_books_removes_issued:
  "(let st3 = snd (add_book 0 (a_book_data ''B3'' ''I3'' 1)
                (snd (add_book 0 (a_book_data ''B2'' ''I2'' 1)
                  (snd (add_book 0 (a_book_data ''B1'' ''I1'' 1) (a_library [] []))))));
        st4 = snd (issue_book 0 3 ''M0001'' st3);
        st5 = snd (delete_book 1 st4);
        st6 = snd (add_book 0 (a_book_data ''B4'' ''I4'' 1) st5)
    in books st6 = [a_book 2 ''B2'' ''I2'' 1 1, a_book 3 ''B3'' ''I3'' 1 0,
                    a_book 3 ''B4'' ''I4'' 1 1] \<and>
       fst (delete_selected_books [3] st6) = (True, [''Success'']) \<and>
       books (snd (delete_selected_books [3] st6)) =
         [a_book 2 ''B2'' ''I2'' 1 1, a_book 3 ''B4'' ''I4'' 1 1])"
  by (simp add: Let_def add_book_def a_book_data_def a_library_def a_book_def dict_get_def
      issue_book_def get_by_id_def build_index_def update_borrow_count_def delete_book_def
      del_at_def delete_selected_books_def check_selected_def delete_first_with_id_def
      strftime_ymd_def day_us_def)

section \<open>Adding a book\<close>

lemma first_index_SomeI:
  "i < length xs \<Longrightarrow> P (xs ! i) \<Longrightarrow> (\<And>j. j < i \<Longrightarrow> \<not> P (xs ! j)) \<Longrightarrow>
   first_index P xs = Some i"
proof (induction xs arbitrary: i)
  case Nil
  then show ?case by simp
next
  case (Cons x xs)
  show ?case
  proof (cases i)
    case 0
    with Cons.prems show ?thesis by simp
  next
    case (Suc k)
    have nx: "\<not> P x" using Cons.prems(3) [of 0] Suc by simp
    have "first_index P xs = Some k"
    proof (rule Cons.IH)
      show "k < length xs" using Cons.prems(1) Suc by simp
      show "P (xs ! k)" using Cons.prems(2) Suc by simp
      fix j assume "j < k"
      then have "Suc j < i" using Suc by simp
      from Cons.prems(3) [OF this] show "\<not> P (xs ! j)" by simp
    qed
    with nx Suc show ?thesis by simp
  qed
qed

lemma length_del_at: "i < length xs \<Longrightarrow> length (del_at i xs) = length xs - 1"
  by (simp add: del_at_def)

lemma nth_del_at:
  "i < length xs \<Longrightarrow> j < length xs - 1 \<Longrightarrow>
   del_at i xs ! j = (if j < i then xs ! j else xs ! Suc j)"
  by (simp add: del_at_def nth_append min_def)

lemma add_book_books:
  "books (snd (add_book now bd st)) = books st @
     [\<lparr> id_book = int (length (books st)) + 1,
        s_no_code = dict_get (bd_s_no_code bd) (CHR ''T'' # str_int (int (length (books st)) + 1)),
        title = bd_title bd, author = bd_author bd, isbn = bd_isbn bd,
        category = bd_category bd, publisher = bd_publisher bd,
        publication_year = bd_publication_year bd,
        page_count = bd_page_count bd, price = bd_price bd,
        total_copies = bd_total_copies bd, available_copies = bd_total_copies bd,
        shelf_location = dict_get (bd_shelf_location bd) [],
        description = dict_get (bd_description bd) [],
        added_date = strftime_ymd now \<rparr>]"
  by (simp add: add_book_def Let_def)

lemma add_book_id: "fst (add_book now bd st) = int (length (books st)) + 1"
  by (simp add: add_book_def Let_def)

lemma get_by_id_snoc_hit:
  "id_book b = k \<Longrightarrow> k \<noteq> 0 \<Longrightarrow> get_by_id (bs @ [b]) k = Some (length bs)"
  by (simp add: get_by_id_def build_index_snoc)

lemma add_book_new_id:
  "id_book (books (snd (add_book now bd st)) ! length (books st)) = int (length (books st)) + 1"
  by (simp add: add_book_books)

lemma add_book_old: 
  "j < length (books st) \<Longrightarrow> books (snd (add_book now bd st)) ! j = books st ! j"
  by (simp add: add_book_books nth_append)

lemma add_book_lookup:
  "get_by_id (books (snd (add_book now bd st))) (int (length (books st)) + 1) =
     Some (length (books st))"
  unfolding add_book_books by (rule get_by_id_snoc_hit) simp_all

text \<open>\<open>add_book\<close> stores the index that it builds from the new list: a lookup by id
  after it is a lookup in that index.\<close>

lemma add_book_stores_index:
  "by_id (snd (add_book now bd st)) k = get_by_id (books (snd (add_book now bd st))) k"
  by (simp add: add_book_def Let_def get_by_id_def)

lemma sequential_ids:
  assumes "map id_book bs = map int [1..<Suc n]"
  shows "length bs = n" and "\<And>j. j < n \<Longrightarrow> id_book (bs ! j) = int j + 1"
proof -
  from assms have "length (map id_book bs) = length (map int [1..<Suc n])" by simp
  then show len: "length bs = n" by simp
  fix j assume j: "j < n"
  have "id_book (bs ! j) = map id_book bs ! j" using j len by simp
  also have "\<dots> = map int [1..<Suc n] ! j" using assms by simp
  also have "\<dots> = int j + 1" using j by (simp del: upt_Suc)
  finally show "id_book (bs ! j) = int j + 1" .
qed

lemma delete_then_add_duplicates:
  assumes ids: "map id_book (books st) = map int [1..<Suc n]"
    and k: "1 \<le> k" "k < n"
    and free: "\<not> available_copies (books st ! (k - 1)) < total_copies (books st ! (k - 1))"
  shows "fst (delete_book (int k) st) = (True, []) \<and>
     fst (add_book now bd (snd (delete_book (int k) st))) = int n \<and>
     length (books (snd (add_book now bd (snd (delete_book (int k) st))))) = n \<and>
     id_book (books (snd (add_book now bd (snd (delete_book (int k) st)))) ! (n - 2)) = int n \<and>
     id_book (books (snd (add_book now bd (snd (delete_book (int k) st)))) ! (n - 1)) = int n"
proof -
  note seq = sequential_ids [OF ids]
  have fi: "first_index (\<lambda>b. id_book b = int k) (books st) = Some (k - 1)"
  proof (rule first_index_SomeI)
    show "k - 1 < length (books st)" using k seq(1) by simp
    show "id_book (books st ! (k - 1)) = int k" using k seq(2) [of "k - 1"] by simp
    fix j assume "j < k - 1"
    then show "id_book (books st ! j) \<noteq> int k" using k seq(2) [of j] by simp
  qed
  define st1 where "st1 = st\<lparr>books := del_at (k - 1) (books st),
      by_id := build_index (del_at (k - 1) (books st))\<rparr>"
  have del: "delete_book (int k) st = ((True, []), st1)"
    unfolding st1_def using fi free by (rule delete_book_removes)
  have len1: "length (books st1) = n - 1"
    using k seq(1) by (simp add: st1_def length_del_at)
  have "books st1 ! (n - 2) = books st ! (n - 1)"
  proof -
    have "del_at (k - 1) (books st) ! (n - 2) = books st ! Suc (n - 2)"
      using k seq(1) by (simp add: nth_del_at)
    moreover have "Suc (n - 2) = n - 1" using k by simp
    ultimately show ?thesis by (simp add: st1_def)
  qed
  then have last1: "id_book (books st1 ! (n - 2)) = int n"
    using k seq(2) [of "n - 1"] by simp
  have "books (snd (add_book now bd st1)) ! (n - 2) = books st1 ! (n - 2)"
    using k len1 by (intro add_book_old) simp
  with last1 have old: "id_book (books (snd (add_book now bd st1)) ! (n - 2)) = int n" by simp
  have new: "id_book (books (snd (add_book now bd st1)) ! (n - 1)) = int n"
    using add_book_new_id [of now bd st1] k by (simp add: len1)
  have "fst (add_book now bd st1) = int n"
    using k by (simp add: add_book_id len1)
  moreover have "length (books (snd (add_book now bd st1))) = n"
    using k by (simp add: add_book_books len1)
  ultimately show ?thesis using old new by (simp add: del)
qed

text \<open>
  Claim C10. \<open>add_book\<close> always gives the new book the id "number of books in the catalog
  plus one" and appends it. So whenever some book of the catalog already has that id,
  the catalog afterwards holds that book and the new one under the same id, and the index
  by id resolves the id to the new book only. Such a state is reached from every catalog
  with the ids 1 to \<open>n\<close> in order by deleting, with \<open>delete_book\<close>, a book other than the
  last that has no copy on loan, and adding a book: the new book gets the id \<open>n\<close>, which
  the last old book still has.
\<close>

theorem add_book_id_from_length:
  "fst (add_book now bd st) = int (length (books st)) + 1 \<and>
   length (books (snd (add_book now bd st))) = Suc (length (books st)) \<and>
   id_book (books (snd (add_book now bd st)) ! length (books st)) =
     int (length (books st)) + 1 \<and>
   (\<forall>j<length (books st). id_book (books st ! j) = int (length (books st)) + 1 \<longrightarrow>
      books (snd (add_book now bd st)) ! j = books st ! j \<and>
      id_book (books (snd (add_book now bd st)) ! j) =
        id_book (books (snd (add_book now bd st)) ! length (books st)) \<and>
      get_by_id (books (snd (add_book now bd st))) (int (length (books st)) + 1) =
        Some (length (books st)) \<and>
      get_by_id (books (snd (add_book now bd st))) (int (length (books st)) + 1) \<noteq> Some j) \<and>
   (map id_book (books st) = map int [1..<Suc n] \<and> 1 \<le> k \<and> k < n \<and>
    \<not> available_copies (books st ! (k - 1)) < total_copies (books st ! (k - 1)) \<longrightarrow>
      fst (delete_book (int k) st) = (True, []) \<and>
      fst (add_book now bd (snd (delete_book (int k) st))) = int n \<and>
      length (books (snd (add_book now bd (snd (delete_book (int k) st))))) = n \<and>
      id_book (books (snd (add_book now bd (snd (delete_book (int k) st)))) ! (n - 2)) = int n \<and>
      id_book (books (snd (add_book now bd (snd (delete_book (int k) st)))) ! (n - 1)) = int n)"
proof (intro conjI allI impI)
  show "fst (add_book now bd st) = int (length (books st)) + 1" by (rule add_book_id)
  show "length (books (snd (add_book now bd st))) = Suc (length (books st))"
    by (simp add: add_book_books)
  show "id_book (books (snd (add_book now bd st)) ! length (books st)) =
     int (length (books st)) + 1" by (rule add_book_new_id)
next
  fix j assume j: "j < length (books st)"
    and d: "id_book (books st ! j) = int (length (books st)) + 1"
  show old: "books (snd (add_book now bd st)) ! j = books st ! j"
    using j by (rule add_book_old)
  show "id_book (books (snd (add_book now bd st)) ! j) =
        id_book (books (snd (add_book now bd st)) ! length (books st))"
    using old d by (simp add: add_book_new_id)
  show "get_by_id (books (snd (add_book now bd st))) (int (length (books st)) + 1) =
        Some (length (books st))" by (rule add_book_lookup)
  show "get_by_id (books (snd (add_book now bd st))) (int (length (books st)) + 1) \<noteq> Some j"
    using j by (simp add: add_book_lookup)
next
  assume h: "map id_book (books st) = map int [1..<Suc n] \<and> 1 \<le> k \<and> k < n \<and>
    \<not> available_copies (books st ! (k - 1)) < total_copies (books st ! (k - 1))"
  then have a: "map id_book (books st) = map int [1..<Suc n]" "1 \<le> k" "k < n"
    "\<not> available_copies (books st ! (k - 1)) < total_copies (books st ! (k - 1))"
    by simp_all
  note r = delete_then_add_duplicates [OF a, of now bd]
  from r show "fst (delete_book (int k) st) = (True, [])" by simp
  from r show "fst (add_book now bd (snd (delete_book (int k) st))) = int n" by simp
  from r show "length (books (snd (add_book now bd (snd (delete_book (int k) st))))) = n"
    by simp
  from r show "id_book (books (snd (add_book now bd (snd (delete_book (int k) st)))) ! (n - 2))
      = int n" by simp
  from r show "id_book (books (snd (add_book now bd (snd (delete_book (int k) st)))) ! (n - 1))
      = int n" by simp
qed

theorem add_book_id_from_length_witness:
  "fst (add_book 0 (a_book_data ''B4'' ''I4'' 1)
         (a_library [a_book 2 ''B2'' ''I2'' 1 1, a_book 3 ''B3'' ''I3'' 1 1] [])) = 3 \<and>
   id_book (books (snd (add_book 0 (a_book_data ''B4'' ''I4'' 1)
         (a_library [a_book 2 ''B2'' ''I2'' 1 1, a_book 3 ''B3'' ''I3'' 1 1] []))) ! 1) =
   id_book (books (snd (add_book 0 (a_book_data ''B4'' ''I4'' 1)
         (a_library [a_book 2 ''B2'' ''I2'' 1 1, a_book 3 ''B3'' ''I3'' 1 1] []))) ! 2) \<and>
   get_by_id (books (snd (add_book 0 (a_book_data ''B4'' ''I4'' 1)
         (a_library [a_book 2 ''B2'' ''I2'' 1 1, a_book 3 ''B3'' ''I3'' 1 1] [])))) 3 = Some 2 \<and>
   fst (delete_book 1 (a_library [a_book 1 ''B1'' ''I1'' 1 1, a_book 2 ''B2'' ''I2'' 1 1,
         a_book 3 ''B3'' ''I3'' 1 1] [])) = (True, []) \<and>
   fst (add_book 0 (a_book_data ''B4'' ''I4'' 1)
         (snd (delete_book 1 (a_library [a_book 1 ''B1'' ''I1'' 1 1,
            a_book 2 ''B2'' ''I2'' 1 1, a_book 3 ''B3'' ''I3'' 1 1] [])))) = 3"
proof -
  let ?st = "a_library [a_book 2 ''B2'' ''I2'' 1 1, a_book 3 ''B3'' ''I3'' 1 1] []"
  let ?st3 = "a_library [a_book 1 ''B1'' ''I1'' 1 1, a_book 2 ''B2'' ''I2'' 1 1,
         a_book 3 ''B3'' ''I3'' 1 1] []"
  let ?bd = "a_book_data ''B4'' ''I4'' 1"
  have b: "books ?st = [a_book 2 ''B2'' ''I2'' 1 1, a_book 3 ''B3'' ''I3'' 1 1]"
    by (simp add: a_library_def)
  have b3: "books ?st3 = [a_book 1 ''B1'' ''I1'' 1 1, a_book 2 ''B2'' ''I2'' 1 1,
         a_book 3 ''B3'' ''I3'' 1 1]"
    by (simp add: a_library_def)
  have len: "length (books ?st) = 2" by (simp add: b)
  have dup: "1 < length (books ?st)" "id_book (books ?st ! 1) = int (length (books ?st)) + 1"
    by (simp_all add: a_library_def a_book_def)
  have seq: "map id_book (books ?st3) = map int [1..<Suc 3] \<and> (1::nat) \<le> 1 \<and> (1::nat) < 3 \<and>
    \<not> available_copies (books ?st3 ! (1 - 1)) < total_copies (books ?st3 ! (1 - 1))"
    by (simp add: a_library_def a_book_def upt_rec)
  note t = add_book_id_from_length [of 0 ?bd ?st 3 1]
  note t3 = add_book_id_from_length [of 0 ?bd ?st3 3 1]
  from t have 1: "fst (add_book 0 ?bd ?st) = 3" by (simp add: len)
  note d = t [THEN conjunct2, THEN conjunct2, THEN conjunct2, THEN conjunct1, rule_format,
      OF dup]
  from d [THEN conjunct2, THEN conjunct1]
  have 2: "id_book (books (snd (add_book 0 ?bd ?st)) ! 1) =
      id_book (books (snd (add_book 0 ?bd ?st)) ! 2)"
    by (simp only: len)
  from d [THEN conjunct2, THEN conjunct2, THEN conjunct1]
  have 3: "get_by_id (books (snd (add_book 0 ?bd ?st))) 3 = Some 2"
    by (simp add: len)
  note e = t3 [THEN conjunct2, THEN conjunct2, THEN conjunct2, THEN conjunct2, rule_format,
      OF seq]
  from e [THEN conjunct1] have 4: "fst (delete_book 1 ?st3) = (True, [])"
    by simp
  from e [THEN conjunct2, THEN conjunct1]
  have 5: "fst (add_book 0 ?bd (snd (delete_book 1 ?st3))) = 3"
    by simp
  from 1 2 3 4 5 show ?thesis by (intro conjI)
qed

section \<open>Returning a book\<close>

lemma mark_as_returned_confirmed:
  "4 < length vals \<Longrightarrow> mark_as_returned now (Some vals) True st = (Raised NameError, st)"
  by (simp add: mark_as_returned_def loading_spinner_show_def Let_def)

lemma mark_as_returned_state: "snd (mark_as_returned now selection confirmed st) = st"
  by (simp add: mark_as_returned_def loading_spinner_show_def Let_def split: option.splits)

text \<open>The name and the title that the handler reads from a row of the table: the table is
  filled with the values student name, phone, book title, author, issue date, due date,
  days left and status, in this order, so the value 4 is the issue date. With it as the
  title, the statements inside the \<open>try\<close> match no row and no book.\<close>

lemma returned_update_with_issue_date:
  "returned_update 0 ''S'' ''2024-01-05''
     ((a_library [a_book 1 ''B'' ''I'' 1 0] [])\<lparr>admin_saves := [an_issued_save ''S'' ''B'']\<rparr>) =
   (a_library [a_book 1 ''B'' ''I'' 1 0] [])\<lparr>admin_saves := [an_issued_save ''S'' ''B'']\<rparr>"
  by (simp add: returned_update_def mark_returned_rows_def a_library_def a_book_def
      an_issued_save_def Let_def)

text \<open>
  Claim C2 on the code. The only copy of a book is on loan to a student, and the loan is
  shown in the table of active borrowers. The row is selected, "Mark Returned" is clicked
  and the question is confirmed: the handler ends with \<open>NameError\<close> from the loading
  spinner, before its \<open>UPDATE\<close> and before the increment. The loan is still issued and the
  book still has 0 available copies of 1.
\<close>

theorem mark_as_returned_raises:
  "mark_as_returned 0
     (Some [''S'', ''P'', ''B'', ''A'', ''2024-01-05'', ''2024-01-19'', ''14 days'', ''Active''])
     True
     ((a_library [a_book 1 ''B'' ''I'' 1 0] [])\<lparr>admin_saves := [an_issued_save ''S'' ''B'']\<rparr>) =
   (Raised NameError,
     (a_library [a_book 1 ''B'' ''I'' 1 0] [])\<lparr>admin_saves := [an_issued_save ''S'' ''B'']\<rparr>)"
  by (simp add: mark_as_returned_def loading_spinner_show_def Let_def)

section \<open>Invariant I1\<close>

text \<open>The operations that keep the invariant, some of them only for arguments that are
  not negative.\<close>

lemma list_all_update: "list_all P xs \<Longrightarrow> P x \<Longrightarrow> list_all P (xs[i := x])"
proof -
  assume a: "list_all P xs" "P x"
  have "set (xs[i := x]) \<subseteq> insert x (set xs)" by (rule set_update_subset_insert)
  with a show ?thesis by (auto simp: list_all_iff)
qed

lemma list_all_del_at: "list_all P xs \<Longrightarrow> list_all P (del_at i xs)"
  by (auto simp: del_at_def list_all_iff dest: in_set_takeD in_set_dropD)

lemma list_all_nthD: "list_all P xs \<Longrightarrow> i < length xs \<Longrightarrow> P (xs ! i)"
  by (simp add: list_all_length)

lemma I1_add_book: "I1 st \<Longrightarrow> 0 \<le> bd_total_copies bd \<Longrightarrow> I1 (snd (add_book now bd st))"
  by (simp add: I1_def add_book_books copies_ok_def)

lemma I1_issue_book:
  assumes "I1 st"
  shows "I1 (snd (issue_book now b_id m_id st))"
proof (cases "by_id st b_id")
  case None
  with assms show ?thesis by (simp add: issue_book_def)
next
  case (Some i)
  show ?thesis
  proof (cases "available_copies (books st ! i) \<le> 0")
    case True
    with assms Some show ?thesis by (simp add: issue_book_def)
  next
    case False
    then have av: "0 < available_copies (books st ! i)" by simp
    from issue_book_success [OF Some av, of now m_id] obtain st' where
      r: "issue_book now b_id m_id st =
            ((True, Book_issued_successfully (Ymd (now div day_us + loan_period))), st')"
      and b: "books st' = (books st)[i := (books st ! i)
             \<lparr>available_copies := available_copies (books st ! i) - 1\<rparr>]"
      by blast
    show ?thesis
    proof (cases "i < length (books st)")
      case True
      with assms have "copies_ok (books st ! i)" by (simp add: I1_def list_all_nthD)
      with av have "copies_ok ((books st ! i)
             \<lparr>available_copies := available_copies (books st ! i) - 1\<rparr>)"
        by (simp add: copies_ok_def)
      with assms show ?thesis by (simp add: r b I1_def list_all_update)
    next
      case False
      then have "books st' = books st" by (simp add: b list_update_beyond)
      with assms show ?thesis by (simp add: r I1_def)
    qed
  qed
qed

lemma I1_restock_at:
  assumes "I1 st" "i < length (books st)" "0 \<le> q"
  shows "I1 (restock_at now i q act src nts st)"
proof -
  have "copies_ok (books st ! i)" using assms(1,2) by (simp add: I1_def list_all_nthD)
  with assms(3) have "copies_ok ((books st ! i)
     \<lparr>available_copies := available_copies (books st ! i) + q,
      total_copies := total_copies (books st ! i) + q\<rparr>)"
    by (simp add: copies_ok_def)
  with assms(1) show ?thesis by (simp add: I1_def restock_at_books list_all_update)
qed

lemma I1_restock_book: 
  assumes "I1 st" "0 \<le> q"
  shows "I1 (snd (restock_book now b_id q src nts st))"
proof (cases "first_index (\<lambda>b. id_book b = b_id) (books st)")
  case None
  with assms show ?thesis by (simp add: restock_book_def)
next
  case (Some i)
  from first_index_SomeD [OF Some] have "i < length (books st)" by simp
  from I1_restock_at [OF assms(1) this assms(2)] Some show ?thesis
    by (simp add: restock_book_def Let_def)
qed

lemma I1_restock_row:
  assumes "I1 s" "0 \<le> q"
  shows "I1 (snd (snd (restock_row now c q (rs, sk, s))))"
proof (cases "first_index (\<lambda>b. isbn b = c) (books s)")
  case None
  with assms show ?thesis by (simp add: restock_row_miss)
next
  case (Some i)
  from first_index_SomeD [OF Some] have "i < length (books s)" by simp
  from I1_restock_at [OF assms(1) this assms(2)] show ?thesis
    by (simp add: restock_row_hit [OF Some])
qed

lemma I1_restock_rows:
  assumes "I1 (snd (snd acc))" "\<forall>r\<in>set rows. \<forall>q. snd r = Some q \<longrightarrow> 0 \<le> q"
  shows "I1 (snd (snd (snd (restock_rows clock k rows acc))))"
  using assms
proof (induction rows arbitrary: k acc)
  case Nil
  then show ?case by simp
next
  case (Cons r rows)
  obtain c qo where r: "r = (c, qo)" by (cases r)
  obtain rs sk s where acc: "acc = (rs, sk, s)" by (cases acc)
  show ?case
  proof (cases qo)
    case None
    with Cons.prems(1) show ?thesis by (simp add: r)
  next
    case (Some q)
    with Cons.prems(2) have q: "0 \<le> q" by (simp add: r)
    from Cons.prems(1) have "I1 s" by (simp add: acc)
    from I1_restock_row [OF this q] have
      "I1 (snd (snd (restock_row (clock k) c q acc)))" by (simp add: acc)
    moreover from Cons.prems(2) have "\<forall>r\<in>set rows. \<forall>q. snd r = Some q \<longrightarrow> 0 \<le> q"
      by simp
    ultimately have "I1 (snd (snd (snd (restock_rows clock (Suc k) rows
        (restock_row (clock k) c q acc)))))"
      by (rule Cons.IH)
    then show ?thesis by (simp add: r Some)
  qed
qed

lemma I1_bulk_restock:
  assumes "I1 st"
    "\<forall>r\<in>set rows. \<forall>q. snd r = Some q \<longrightarrow> 0 \<le> q"
  shows "I1 (snd (bulk_restock_from_excel clock (Sheet columns rows) st))"
proof -
  have "I1 (snd (snd (snd (restock_rows clock 0 rows ([], [], st)))))"
    using assms by (intro I1_restock_rows) simp_all
  then show ?thesis
    using assms(1)
    by (auto simp: bulk_restock_from_excel_def split: prod.splits bool.splits)
qed

lemma I1_delete_book: "I1 st \<Longrightarrow> I1 (snd (delete_book b_id st))"
  by (simp add: delete_book_def I1_def list_all_del_at split: option.splits)

lemma list_all_delete_first: "list_all P bs \<Longrightarrow> list_all P (delete_first_with_id k bs)"
  by (simp add: delete_first_with_id_def list_all_del_at split: option.splits)

lemma list_all_delete_fold:
  "list_all P bs \<Longrightarrow>
   list_all P (foldl (\<lambda>bs bk. delete_first_with_id (id_book bk) bs) bs ds)"
  by (induction ds arbitrary: bs) (simp_all add: list_all_delete_first)

lemma I1_delete_selected_books: "I1 st \<Longrightarrow> I1 (snd (delete_selected_books ids st))"
  by (simp add: delete_selected_books_def I1_def Let_def list_all_delete_fold
      split: prod.splits)

text \<open>
  Claim C1 on the code. A book has 5 available copies of 5; \<open>update_book\<close> with a total
  of 2 leaves it at 5 available copies of 2. A book has 0 available copies of 5; a sheet
  row with the quantity -3 for its ISBN leaves it at -3 available copies of 2. In both
  cases the invariant held before the operation and does not hold after it.
\<close>

theorem I1_broken_by_update_and_restock:
  "I1 (a_library [a_book 1 ''B'' ''I'' 5 5] []) \<and>
   books (snd (update_book 1 (no_update\<lparr>upd_total_copies := Some 2\<rparr>)
       (a_library [a_book 1 ''B'' ''I'' 5 5] []))) = [a_book 1 ''B'' ''I'' 2 5] \<and>
   \<not> I1 (snd (update_book 1 (no_update\<lparr>upd_total_copies := Some 2\<rparr>)
       (a_library [a_book 1 ''B'' ''I'' 5 5] []))) \<and>
   I1 (a_library [a_book 1 ''B'' ''I'' 5 0] []) \<and>
   books (snd (bulk_restock_from_excel (fixed_clock 0)
       (Sheet [''ISBN'', ''Quantity''] [(''I'', Some (- 3))])
       (a_library [a_book 1 ''B'' ''I'' 5 0] []))) = [a_book 1 ''B'' ''I'' 2 (- 3)] \<and>
   \<not> I1 (snd (bulk_restock_from_excel (fixed_clock 0)
       (Sheet [''ISBN'', ''Quantity''] [(''I'', Some (- 3))])
       (a_library [a_book 1 ''B'' ''I'' 5 0] [])))"
  by (simp add: I1_def copies_ok_def a_library_def a_book_def update_book_def no_update_def
      overwrite_fields_def dict_get_def bulk_restock_from_excel_def restock_row_def
      restock_at_def fixed_clock_def Let_def)

end
